theory Spec2Isabelle
  imports Complex_Main "HOL-Library.Word"
begin

unbundle bit_operations_syntax

section \<open>GrShape: geometry, style and the unstyled cache key\<close>

text \<open>
  A shallow embedding of \<^verbatim>\<open>src/gpu/GrShape.h\<close> and \<^verbatim>\<open>src/gpu/GrShape.cpp\<close>.
  The embedding follows a debug build: an \<^verbatim>\<open>SkASSERT\<close> that fails aborts, which is
  the result \<open>Inl AssertFailed\<close>; every function that can reach an assertion returns
  \<open>error + 'a\<close>.

  GrShape's collaborators (SkPath, SkRRect, SkStrokeRec, SkPathEffect, GrStyle) are
  declared in headers that are not among the sources. Their data is modelled by the
  small records below, which hold what GrShape reads; their algorithms (path effects,
  stroking, key encoding, serialisation) are the fields of the record \<open>collab\<close>, a
  parameter of every function that calls one of them.
\<close>

subsection \<open>Scalars, key words, errors\<close>

type_synonym SkScalar = real
type_synonym uint32_t = "32 word"

datatype error = AssertFailed

subsection \<open>Collaborator data\<close>

record SkRect =
  fLeft :: SkScalar
  fTop :: SkScalar
  fRight :: SkScalar
  fBottom :: SkScalar

text \<open>Modelled from the spec: SkRect.h is missing; an empty rectangle has no area.\<close>

definition SkRect_isEmpty :: "SkRect \<Rightarrow> bool" where
  "SkRect_isEmpty r = (fLeft r \<ge> fRight r \<or> fTop r \<ge> fBottom r)"

text \<open>
  Modelled from the spec: SkRRect.h is missing. The spec's data model gives a rounded
  rectangle as ``a rectangle plus independent per-corner x/y radii''; a plain rectangle
  has zero radii, an oval has radii of half the bounding box, and the value a default
  constructor leaves is the empty one.
\<close>

record SkRRect =
  fRect :: SkRect
  fRadii :: "(SkScalar \<times> SkScalar) list"

definition SkRRect_default :: SkRRect where
  "SkRRect_default =
     \<lparr>fRect = \<lparr>fLeft = 0, fTop = 0, fRight = 0, fBottom = 0\<rparr>, fRadii = replicate 4 (0, 0)\<rparr>"

definition SkRRect_isEmpty :: "SkRRect \<Rightarrow> bool" where
  "SkRRect_isEmpty rr = SkRect_isEmpty (fRect rr)"

definition setRect :: "SkRect \<Rightarrow> SkRRect" where
  "setRect rect = \<lparr>fRect = rect, fRadii = replicate 4 (0, 0)\<rparr>"

definition MakeRect :: "SkRect \<Rightarrow> SkRRect" where
  "MakeRect rect = setRect rect"

definition setOval :: "SkRect \<Rightarrow> SkRRect" where
  "setOval rect =
     \<lparr>fRect = rect,
      fRadii = replicate 4 ((fRight rect - fLeft rect) / 2, (fBottom rect - fTop rect) / 2)\<rparr>"

text \<open>
  Modelled from the spec: SkPath.h is missing. A path is ``opaque to this component
  except for: emptiness, `is this actually a rect/oval/rrect' predicates, a generation
  identifier, and a volatile flag''. The record holds the answers of
  \<^verbatim>\<open>isEmpty()\<close>, \<^verbatim>\<open>isRRect(&rrect)\<close>, \<^verbatim>\<open>isOval(&rect)\<close>,
  \<^verbatim>\<open>isRect(&rect, &closed, nullptr)\<close> (the out-parameters are written on success only),
  \<^verbatim>\<open>isVolatile()\<close> and \<^verbatim>\<open>getGenerationID()\<close>.
\<close>

record SkPath =
  path_isEmpty :: bool
  path_isRRect :: "SkRRect option"
  path_isOval :: "SkRect option"
  path_isRect :: "(SkRect \<times> bool) option"
  isVolatile :: bool
  getGenerationID :: uint32_t

text \<open>A default-constructed or reset path: empty, not volatile.\<close>

definition SkPath_new :: SkPath where
  "SkPath_new =
     \<lparr>path_isEmpty = True, path_isRRect = None, path_isOval = None, path_isRect = None,
      isVolatile = False, getGenerationID = 1\<rparr>"

definition setIsVolatile :: "bool \<Rightarrow> SkPath \<Rightarrow> SkPath" where
  "setIsVolatile v p = p\<lparr>isVolatile := v\<rparr>"

text \<open>
  Modelled from the spec: SkStrokeRec.h is missing. The stroke description is fill,
  hairline, stroke or stroke-and-fill with its parameters; only the last two ``still
  need applying''.
\<close>

datatype Style = kHairline_Style | kFill_Style | kStroke_Style | kStrokeAndFill_Style

datatype InitStyle = kHairline_InitStyle | kFill_InitStyle

record SkStrokeRec =
  getStyle :: Style
  getWidth :: SkScalar
  getMiter :: SkScalar
  getCap :: nat
  getJoin :: nat
  getResScale :: SkScalar

definition SkStrokeRec_init :: "InitStyle \<Rightarrow> SkStrokeRec" where
  "SkStrokeRec_init s =
     \<lparr>getStyle = (case s of kHairline_InitStyle \<Rightarrow> kHairline_Style | kFill_InitStyle \<Rightarrow> kFill_Style),
      getWidth = (case s of kHairline_InitStyle \<Rightarrow> 0 | kFill_InitStyle \<Rightarrow> - 1),
      getMiter = 4, getCap = 0, getJoin = 0, getResScale = 1\<rparr>"

definition isFillStyle :: "SkStrokeRec \<Rightarrow> bool" where
  "isFillStyle rec = (getStyle rec = kFill_Style)"

definition needToApply :: "SkStrokeRec \<Rightarrow> bool" where
  "needToApply rec = (getStyle rec = kStroke_Style \<or> getStyle rec = kStrokeAndFill_Style)"

definition setResScale :: "SkScalar \<Rightarrow> SkStrokeRec \<Rightarrow> SkStrokeRec" where
  "setResScale rs rec = rec\<lparr>getResScale := rs\<rparr>"

text \<open>
  A path effect is an object with a virtual \<^verbatim>\<open>filterPath\<close>; the embedding names the
  object and leaves the method to \<open>collab\<close>.
\<close>

datatype SkPathEffect = SkDashPathEffect "SkScalar list" SkScalar | SkOtherPathEffect nat

text \<open>
  Modelled from the spec: GrStyle.h is missing. A style is an optional path effect and
  a stroke description; it ``applies'' when it has any effect at all.
\<close>

record GrStyle =
  fPathEffect :: "SkPathEffect option"
  fStrokeRec :: SkStrokeRec

definition GrStyle_default :: GrStyle where
  "GrStyle_default = \<lparr>fPathEffect = None, fStrokeRec = SkStrokeRec_init kFill_InitStyle\<rparr>"

definition GrStyle_make :: "SkStrokeRec \<Rightarrow> SkPathEffect option \<Rightarrow> GrStyle" where
  "GrStyle_make rec pe = \<lparr>fPathEffect = pe, fStrokeRec = rec\<rparr>"

definition pathEffect :: "GrStyle \<Rightarrow> SkPathEffect option" where
  "pathEffect st = fPathEffect st"

definition strokeRec :: "GrStyle \<Rightarrow> SkStrokeRec" where
  "strokeRec st = fStrokeRec st"

definition applies :: "GrStyle \<Rightarrow> bool" where
  "applies st = (pathEffect st \<noteq> None \<or> needToApply (strokeRec st))"

definition resetToInitStyle :: "InitStyle \<Rightarrow> GrStyle" where
  "resetToInitStyle fillOrHairline =
     \<lparr>fPathEffect = None, fStrokeRec = SkStrokeRec_init fillOrHairline\<rparr>"

datatype Apply = kPathEffectOnly | kPathEffectAndStrokeRec

subsection \<open>Collaborator algorithms\<close>

text \<open>
  The operations GrShape calls and whose code is not among the sources:

  \<^item> \<open>kSizeInMemory\<close>: \<^verbatim>\<open>SkRRect::kSizeInMemory\<close>, in bytes;
  \<^item> \<open>writeToMemory rr i\<close>: word \<open>i\<close> of what \<^verbatim>\<open>SkRRect::writeToMemory\<close> stores;
  \<^item> \<open>addRRect rr\<close>: the path after \<^verbatim>\<open>reset(); addRRect(rr)\<close>;
  \<^item> \<open>filterPath pe src rec\<close>: \<^verbatim>\<open>pe->filterPath(dst, src, &rec, nullptr)\<close>,
    \<open>None\<close> when it returns false, else the filtered path and the stroke description
    it leaves;
  \<^item> \<open>strokeRec_applyToPath rec src\<close>: \<^verbatim>\<open>SkStrokeRec::applyToPath(dst, src)\<close>;
  \<^item> \<open>style_applyToPath st src scale\<close>: \<^verbatim>\<open>GrStyle::applyToPath(dst, &fillOrHairline, src, scale)\<close>;
  \<^item> \<open>kClosed_KeyFlag\<close>, \<open>KeySize st apply flags\<close>: \<^verbatim>\<open>GrStyle::KeySize\<close>;
  \<^item> \<open>WriteKey st apply scale flags i\<close>: word \<open>i\<close> of what \<^verbatim>\<open>GrStyle::WriteKey\<close>
    stores.

  The two writers fill a buffer whose length the caller fixed beforehand, so they are
  given by the word they store at each index.
\<close>

record collab =
  kSizeInMemory :: nat
  writeToMemory :: "SkRRect \<Rightarrow> nat \<Rightarrow> uint32_t"
  addRRect :: "SkRRect \<Rightarrow> SkPath"
  filterPath :: "SkPathEffect \<Rightarrow> SkPath \<Rightarrow> SkStrokeRec \<Rightarrow> (SkPath \<times> SkStrokeRec) option"
  strokeRec_applyToPath :: "SkStrokeRec \<Rightarrow> SkPath \<Rightarrow> SkPath option"
  style_applyToPath :: "GrStyle \<Rightarrow> SkPath \<Rightarrow> SkScalar \<Rightarrow> (SkPath \<times> InitStyle) option"
  kClosed_KeyFlag :: uint32_t
  KeySize :: "GrStyle \<Rightarrow> Apply \<Rightarrow> uint32_t \<Rightarrow> int"
  WriteKey :: "GrStyle \<Rightarrow> Apply \<Rightarrow> SkScalar \<Rightarrow> uint32_t \<Rightarrow> nat \<Rightarrow> uint32_t"

subsection \<open>The shape\<close>

datatype Type = kEmpty | kRRect | kPath

text \<open>
  The members of GrShape. \<open>fPath\<close> is an \<^verbatim>\<open>SkTLazy<SkPath>\<close>: \<open>None\<close> while it
  holds no path. \<open>fInheritedKey\<close> is an array of key words; its \<^verbatim>\<open>count()\<close> is the
  length of the list.
\<close>

record GrShape =
  fType :: Type
  fRRect :: SkRRect
  fPath :: "SkPath option"
  fStyle :: GrStyle
  fInheritedKey :: "uint32_t list"

text \<open>\<^verbatim>\<open>fPath.get()\<close>: the stored path; asserts that one is stored.\<close>

definition fPath_get :: "GrShape \<Rightarrow> error + SkPath" where
  "fPath_get s = (case fPath s of None \<Rightarrow> Inl AssertFailed | Some p \<Rightarrow> Inr p)"

text \<open>\<^verbatim>\<open>GrShape()\<close>: the members as their default constructors leave them.\<close>

definition GrShape_default :: GrShape where
  "GrShape_default =
     \<lparr>fType = kEmpty, fRRect = SkRRect_default, fPath = None, fStyle = GrStyle_default,
      fInheritedKey = []\<rparr>"

text \<open>\<^verbatim>\<open>AttemptToReduceFromPathImpl\<close> (GrShape.h 221-243); returns the type and the
  value of \<^verbatim>\<open>*rrect\<close> afterwards.\<close>

definition AttemptToReduceFromPathImpl ::
  "SkPath \<Rightarrow> SkRRect \<Rightarrow> SkPathEffect option \<Rightarrow> SkStrokeRec \<Rightarrow> error + (Type \<times> SkRRect)" where
  "AttemptToReduceFromPathImpl path rrect pe rec =
     (if path_isEmpty path then Inr (kEmpty, rrect)
      else case path_isRRect path of
        Some rr \<Rightarrow> if SkRRect_isEmpty rr then Inl AssertFailed else Inr (kRRect, rr)
      | None \<Rightarrow>
         (case path_isOval path of
            Some rect \<Rightarrow> Inr (kRRect, setOval rect)
          | None \<Rightarrow>
             (case path_isRect path of
                Some (rect, isClosed) \<Rightarrow>
                  if isClosed \<or> (pe = None \<and> isFillStyle rec) then Inr (kRRect, setRect rect)
                  else Inr (kPath, rrect)
              | None \<Rightarrow> Inr (kPath, rrect))))"

text \<open>\<^verbatim>\<open>attemptToReduceFromPath\<close> (GrShape.h 203-211).\<close>

definition attemptToReduceFromPath :: "GrShape \<Rightarrow> error + GrShape" where
  "attemptToReduceFromPath s =
     (if fType s \<noteq> kPath then Inl AssertFailed
      else case fPath_get s of
        Inl e \<Rightarrow> Inl e
      | Inr p \<Rightarrow>
         (case AttemptToReduceFromPathImpl p (fRRect s) (pathEffect (fStyle s)) (strokeRec (fStyle s)) of
            Inl e \<Rightarrow> Inl e
          | Inr (t, rr) \<Rightarrow>
              if t \<noteq> kPath then Inr (s\<lparr>fType := t, fRRect := rr, fPath := None, fInheritedKey := []\<rparr>)
              else Inr (s\<lparr>fType := t, fRRect := rr\<rparr>)))"

text \<open>\<^verbatim>\<open>attemptToReduceFromRRect\<close> (GrShape.h 213-219).\<close>

definition attemptToReduceFromRRect :: "GrShape \<Rightarrow> error + GrShape" where
  "attemptToReduceFromRRect s =
     (if fType s \<noteq> kRRect then Inl AssertFailed
      else if fInheritedKey s \<noteq> [] then Inl AssertFailed
      else if SkRRect_isEmpty (fRRect s) then Inr (s\<lparr>fType := kEmpty\<rparr>)
      else Inr s)"

text \<open>The public constructors (GrShape.h 38-75). The constructors without a style
  are those with \<open>GrStyle_default\<close>; the ones taking an SkPaint build their style from
  the paint first.\<close>

definition GrShape_path :: "SkPath \<Rightarrow> GrStyle \<Rightarrow> error + GrShape" where
  "GrShape_path path st =
     attemptToReduceFromPath (GrShape_default\<lparr>fType := kPath, fPath := Some path, fStyle := st\<rparr>)"

definition GrShape_rrect :: "SkRRect \<Rightarrow> GrStyle \<Rightarrow> error + GrShape" where
  "GrShape_rrect rrect st =
     attemptToReduceFromRRect (GrShape_default\<lparr>fType := kRRect, fRRect := rrect, fStyle := st\<rparr>)"

definition GrShape_rect :: "SkRect \<Rightarrow> GrStyle \<Rightarrow> error + GrShape" where
  "GrShape_rect rect st = GrShape_rrect (MakeRect rect) st"

text \<open>\<^verbatim>\<open>operator=\<close> (GrShape.cpp 10-38): \<open>this\<close> is the shape assigned to.\<close>

definition GrShape_assign :: "GrShape \<Rightarrow> GrShape \<Rightarrow> error + GrShape" where
  "GrShape_assign this that =
     (let wasPath = (fType this = kPath);
          this1 = this\<lparr>fStyle := fStyle that, fType := fType that\<rparr>
      in case
          (case fType this1 of
             kEmpty \<Rightarrow> Inr (if wasPath then this1\<lparr>fPath := None\<rparr> else this1)
           | kRRect \<Rightarrow> Inr ((if wasPath then this1\<lparr>fPath := None\<rparr> else this1)\<lparr>fRRect := fRRect that\<rparr>)
           | kPath \<Rightarrow>
              (case fPath_get that of
                 Inl e \<Rightarrow> Inl e
               | Inr p \<Rightarrow>
                  if wasPath then
                    (case fPath_get this1 of Inl e \<Rightarrow> Inl e | Inr _ \<Rightarrow> Inr (this1\<lparr>fPath := Some p\<rparr>))
                  else Inr (this1\<lparr>fPath := Some p\<rparr>)))
         of Inl e \<Rightarrow> Inl e
          | Inr this2 \<Rightarrow> Inr (this2\<lparr>fInheritedKey := fInheritedKey that\<rparr>))"

text \<open>The copy constructor (GrShape.cpp 154-168). Every case of the switch returns, so
  the two statements after it, which copy the inherited key, are never reached.\<close>

definition GrShape_copy :: "GrShape \<Rightarrow> error + GrShape" where
  "GrShape_copy that =
     (let this = GrShape_default\<lparr>fType := fType that, fStyle := fStyle that\<rparr>
      in case fType this of
           kEmpty \<Rightarrow> Inr this
         | kRRect \<Rightarrow> Inr (this\<lparr>fRRect := fRRect that\<rparr>)
         | kPath \<Rightarrow> (case fPath_get that of Inl e \<Rightarrow> Inl e | Inr p \<Rightarrow> Inr (this\<lparr>fPath := Some p\<rparr>)))"

text \<open>Queries (GrShape.h 119-171).\<close>

definition asRRect :: "GrShape \<Rightarrow> SkRRect option" where
  "asRRect s = (if fType s \<noteq> kRRect then None else Some (fRRect s))"

definition asPath :: "collab \<Rightarrow> GrShape \<Rightarrow> error + SkPath" where
  "asPath env s =
     (case fType s of
        kEmpty \<Rightarrow> Inr SkPath_new
      | kRRect \<Rightarrow> Inr (addRRect env (fRRect s))
      | kPath \<Rightarrow> fPath_get s)"

definition GrShape_isEmpty :: "GrShape \<Rightarrow> bool" where
  "GrShape_isEmpty s = (fType s = kEmpty)"

definition knownToBeClosed :: "GrShape \<Rightarrow> bool" where
  "knownToBeClosed s = (case fType s of kEmpty \<Rightarrow> True | kRRect \<Rightarrow> True | kPath \<Rightarrow> False)"

subsection \<open>The unstyled key\<close>

text \<open>\<^verbatim>\<open>unstyledKeySize\<close> (GrShape.cpp 62-82); \<^verbatim>\<open>sizeof(uint32_t)\<close> is 4.\<close>

definition unstyledKeySize :: "collab \<Rightarrow> GrShape \<Rightarrow> error + int" where
  "unstyledKeySize env s =
     (if fInheritedKey s \<noteq> [] then Inr (int (length (fInheritedKey s)))
      else case fType s of
        kEmpty \<Rightarrow> Inr 1
      | kRRect \<Rightarrow>
          if fInheritedKey s \<noteq> [] then Inl AssertFailed
          else if kSizeInMemory env mod 4 \<noteq> 0 then Inl AssertFailed
          else Inr (int (kSizeInMemory env div 4))
      | kPath \<Rightarrow>
         (case fPath_get s of
            Inl e \<Rightarrow> Inl e
          | Inr p \<Rightarrow> if isVolatile p then Inr (- 1) else Inr 1))"

text \<open>\<^verbatim>\<open>writeUnstyledKey\<close> (GrShape.cpp 84-106). The result is the list of words stored
  through \<^verbatim>\<open>key\<close>; the second component inside is how far the debug build advanced
  the pointer, which the last assertion compares with the size.\<close>

definition writeUnstyledKey :: "collab \<Rightarrow> GrShape \<Rightarrow> error + uint32_t list" where
  "writeUnstyledKey env s =
     (case unstyledKeySize env s of
        Inl e \<Rightarrow> Inl e
      | Inr n \<Rightarrow>
          if n = 0 then Inl AssertFailed
          else
            (case
               (if fInheritedKey s \<noteq> [] then Inr (fInheritedKey s, length (fInheritedKey s))
                else
                  (case fType s of
                     kEmpty \<Rightarrow> Inr ([1], 1)
                   | kRRect \<Rightarrow>
                       Inr (map (writeToMemory env (fRRect s)) [0..<kSizeInMemory env div 4],
                            kSizeInMemory env div 4)
                   | kPath \<Rightarrow>
                      (case fPath_get s of
                         Inl e \<Rightarrow> Inl e
                       | Inr p \<Rightarrow>
                           if isVolatile p then Inl AssertFailed
                           else Inr ([getGenerationID p], 1))))
             of Inl e \<Rightarrow> Inl e
              | Inr (ws, advanced) \<Rightarrow> if int advanced = n then Inr ws else Inl AssertFailed))"

text \<open>\<^verbatim>\<open>fPath.get()->setIsVolatile(true)\<close> on a shape.\<close>

definition markVolatile :: "GrShape \<Rightarrow> error + GrShape" where
  "markVolatile s =
     (case fPath_get s of Inl e \<Rightarrow> Inl e | Inr p \<Rightarrow> Inr (s\<lparr>fPath := Some (setIsVolatile True p)\<rparr>))"

text \<open>\<^verbatim>\<open>setInheritedKey\<close> (GrShape.cpp 108-152). The new key has
  \<open>parentCnt + styleCnt\<close> words: the parent's, then the style's.\<close>

definition setInheritedKey :: "collab \<Rightarrow> GrShape \<Rightarrow> GrShape \<Rightarrow> Apply \<Rightarrow> SkScalar \<Rightarrow> error + GrShape" where
  "setInheritedKey env s parent apply scale =
     (if fInheritedKey s \<noteq> [] then Inl AssertFailed
      else if fType s = kPath then
        (let useParentGeoKey = (fInheritedKey parent = [])
         in case (if useParentGeoKey then unstyledKeySize env parent
                  else Inr (int (length (fInheritedKey parent)))) of
              Inl e \<Rightarrow> Inl e
            | Inr parentCnt \<Rightarrow>
                if useParentGeoKey \<and> parentCnt < 0 then markVolatile s
                else
                  (let styleKeyFlags = (if knownToBeClosed parent then 0 OR kClosed_KeyFlag env else 0);
                       styleCnt = KeySize env (fStyle parent) apply styleKeyFlags
                   in if styleCnt < 0 then markVolatile s
                      else case (if useParentGeoKey then writeUnstyledKey env parent
                                 else Inr (fInheritedKey parent)) of
                             Inl e \<Rightarrow> Inl e
                           | Inr parentKey \<Rightarrow>
                               Inr (s\<lparr>fInheritedKey :=
                                      parentKey @
                                      map (WriteKey env (fStyle parent) apply scale styleKeyFlags)
                                        [0..<nat styleCnt]\<rparr>)))
      else Inr s)"

subsection \<open>Applying the style\<close>

text \<open>The source path of the style (GrShape.cpp 189-195 and 241-247): the parent's
  own path, or its geometry turned into one.\<close>

definition srcPath :: "collab \<Rightarrow> GrShape \<Rightarrow> error + SkPath" where
  "srcPath env parent = (if fType parent = kPath then fPath_get parent else asPath env parent)"

text \<open>The shape whose key the stroked output of a path effect inherits
  (GrShape.cpp 219-232): \<^verbatim>\<open>tmpParent\<close> for a simple output, else the parent.\<close>

definition parentForKey :: "GrShape \<Rightarrow> Type \<Rightarrow> SkRRect \<Rightarrow> SkStrokeRec \<Rightarrow> error + GrShape" where
  "parentForKey parent parentType rrect rec =
     (case parentType of
        kEmpty \<Rightarrow> Inr GrShape_default
      | kRRect \<Rightarrow> GrShape_rrect rrect (GrStyle_make rec None)
      | kPath \<Rightarrow> Inr parent)"

text \<open>The last two statements of the constructor (GrShape.cpp 255-256).\<close>

definition reduceAndInherit ::
  "collab \<Rightarrow> GrShape \<Rightarrow> GrShape \<Rightarrow> Apply \<Rightarrow> SkScalar \<Rightarrow> error + GrShape" where
  "reduceAndInherit env this keyParent apply scale =
     (case attemptToReduceFromPath this of
        Inl e \<Rightarrow> Inl e
      | Inr s \<Rightarrow> setInheritedKey env s keyParent apply scale)"

text \<open>The branch with a path effect (GrShape.cpp 188-239); \<open>this\<close> holds the freshly
  initialised path.\<close>

definition applyPathEffect ::
  "collab \<Rightarrow> GrShape \<Rightarrow> GrShape \<Rightarrow> SkPathEffect \<Rightarrow> SkPath \<Rightarrow> Apply \<Rightarrow> SkScalar \<Rightarrow> error + GrShape" where
  "applyPathEffect env this parent pe src apply scale =
     (case filterPath env pe src (setResScale scale (strokeRec (fStyle parent))) of
        None \<Rightarrow> Inr (this\<lparr>fType := kEmpty, fStyle := GrStyle_default, fPath := None\<rparr>)
      | Some (dst, rec) \<Rightarrow>
          if scale \<noteq> getResScale rec then Inl AssertFailed
          else if apply = kPathEffectAndStrokeRec \<and> needToApply rec then
            (case AttemptToReduceFromPathImpl dst SkRRect_default None rec of
               Inl e \<Rightarrow> Inl e
             | Inr (parentType, rrect) \<Rightarrow>
                (case parentForKey parent parentType rrect rec of
                   Inl e \<Rightarrow> Inl e
                 | Inr keyParent \<Rightarrow>
                    (case strokeRec_applyToPath env rec dst of
                       None \<Rightarrow> Inl AssertFailed
                     | Some stroked \<Rightarrow>
                         reduceAndInherit env (this\<lparr>fPath := Some stroked\<rparr>) keyParent apply scale)))
          else
            reduceAndInherit env (this\<lparr>fPath := Some dst, fStyle := GrStyle_make rec None\<rparr>)
              parent apply scale)"

text \<open>The branch without a path effect (GrShape.cpp 240-254).\<close>

definition applyParentStyle ::
  "collab \<Rightarrow> GrShape \<Rightarrow> GrShape \<Rightarrow> SkPath \<Rightarrow> Apply \<Rightarrow> SkScalar \<Rightarrow> error + GrShape" where
  "applyParentStyle env this parent src apply scale =
     (if \<not> applies (fStyle parent) then Inl AssertFailed
      else if pathEffect (fStyle parent) \<noteq> None then Inl AssertFailed
      else case style_applyToPath env (fStyle parent) src scale of
        None \<Rightarrow> Inl AssertFailed
      | Some (dst, fillOrHairline) \<Rightarrow>
          reduceAndInherit env (this\<lparr>fPath := Some dst, fStyle := resetToInitStyle fillOrHairline\<rparr>)
            parent apply scale)"

text \<open>The constructor behind \<^verbatim>\<open>applyStyle\<close> (GrShape.cpp 170-257, GrShape.h 114-116);
  the shape it builds is the shape \<^verbatim>\<open>applyStyle\<close> returns.\<close>

definition applyStyle :: "collab \<Rightarrow> GrShape \<Rightarrow> Apply \<Rightarrow> SkScalar \<Rightarrow> error + GrShape" where
  "applyStyle env parent apply scale =
     (if \<not> applies (fStyle parent) \<or> (apply = kPathEffectOnly \<and> pathEffect (fStyle parent) = None)
      then GrShape_assign (GrShape_default\<lparr>fType := kEmpty\<rparr>) parent
      else
        (let this = GrShape_default\<lparr>fType := kPath, fPath := Some SkPath_new\<rparr>
         in case srcPath env parent of
              Inl e \<Rightarrow> Inl e
            | Inr src \<Rightarrow>
               (case pathEffect (fStyle parent) of
                  Some pe \<Rightarrow> applyPathEffect env this parent pe src apply scale
                | None \<Rightarrow> applyParentStyle env this parent src apply scale)))"


subsection \<open>Observable value of a shape\<close>

text \<open>The geometry a shape holds in its active variant; the storage of the other
  variants is not read by any query.\<close>

datatype Geometry = GEmpty | GRRect SkRRect | GPath "SkPath option"

definition geometry :: "GrShape \<Rightarrow> Geometry" where
  "geometry s =
     (case fType s of kEmpty \<Rightarrow> GEmpty | kRRect \<Rightarrow> GRRect (fRRect s) | kPath \<Rightarrow> GPath (fPath s))"

text \<open>A shape of type \<open>kPath\<close> holds a path, and no other shape does.\<close>

definition holdsPath :: "GrShape \<Rightarrow> bool" where
  "holdsPath s = ((fType s = kPath) = (fPath s \<noteq> None))"

subsection \<open>Shapes the public interface can build\<close>

inductive reachable :: "collab \<Rightarrow> GrShape \<Rightarrow> bool" for env :: collab where
  r_default: "reachable env GrShape_default"
| r_path: "GrShape_path path st = Inr s \<Longrightarrow> reachable env s"
| r_rrect: "GrShape_rrect rrect st = Inr s \<Longrightarrow> reachable env s"
| r_rect: "GrShape_rect rect st = Inr s \<Longrightarrow> reachable env s"
| r_applyStyle: "reachable env parent \<Longrightarrow> applyStyle env parent apply scale = Inr s \<Longrightarrow> reachable env s"
| r_copy: "reachable env that \<Longrightarrow> GrShape_copy that = Inr s \<Longrightarrow> reachable env s"
| r_assign: "reachable env this \<Longrightarrow> reachable env that \<Longrightarrow> GrShape_assign this that = Inr s
             \<Longrightarrow> reachable env s"

subsection \<open>Concrete inputs\<close>

text \<open>One instance of the collaborators and a few shapes, on which the definitions
  are run below. Its path effects and strokers return fixed paths. Its key encoder
  writes, for a dash, the scale, the phase and the intervals, and for a stroke that needs
  applying, the scale, the cap, the miter limit and the width; another path effect has
  no key and fails to filter. A dash without intervals leaves a closed rectangle.\<close>

definition scalarWord :: "SkScalar \<Rightarrow> uint32_t" where
  "scalarWord x = word_of_int \<lfloor>x\<rfloor>"

definition demo_dashKey :: "GrStyle \<Rightarrow> SkScalar \<Rightarrow> uint32_t list" where
  "demo_dashKey st scale =
     (case pathEffect st of
        Some (SkDashPathEffect intervals phase) \<Rightarrow> map scalarWord (scale # phase # intervals)
      | _ \<Rightarrow> [])"

definition demo_strokeKey :: "GrStyle \<Rightarrow> Apply \<Rightarrow> SkScalar \<Rightarrow> uint32_t \<Rightarrow> uint32_t list" where
  "demo_strokeKey st apply scale flags =
     (if apply = kPathEffectAndStrokeRec \<and> needToApply (strokeRec st)
      then [scalarWord scale,
            (if flags AND 1 \<noteq> 0 \<and> pathEffect st = None then 0 else word_of_nat (getCap (strokeRec st))),
            scalarWord (getMiter (strokeRec st)), scalarWord (getWidth (strokeRec st))]
      else [])"

definition demo_path :: SkPath where
  "demo_path =
     \<lparr>path_isEmpty = False, path_isRRect = None, path_isOval = None, path_isRect = None,
      isVolatile = False, getGenerationID = 7\<rparr>"

definition demo_rect :: SkRect where
  "demo_rect = \<lparr>fLeft = 0, fTop = 0, fRight = 4, fBottom = 2\<rparr>"

definition demo_rectPath :: "bool \<Rightarrow> SkPath" where
  "demo_rectPath isClosed =
     \<lparr>path_isEmpty = False, path_isRRect = None, path_isOval = None,
      path_isRect = Some (demo_rect, isClosed), isVolatile = False, getGenerationID = 8\<rparr>"

definition demo_dashedPath :: SkPath where
  "demo_dashedPath =
     \<lparr>path_isEmpty = False, path_isRRect = None, path_isOval = None,
      path_isRect = Some (\<lparr>fLeft = 1, fTop = 0, fRight = 3, fBottom = 1\<rparr>, True),
      isVolatile = False, getGenerationID = 12\<rparr>"

definition demo_collab :: collab where
  "demo_collab =
     \<lparr>kSizeInMemory = 8,
      writeToMemory = (\<lambda>rr i.
         if i = 0 then scalarWord (fRight (fRect rr)) else scalarWord (fBottom (fRect rr))),
      addRRect = (\<lambda>rr.
         \<lparr>path_isEmpty = SkRRect_isEmpty rr,
          path_isRRect = (if SkRRect_isEmpty rr then None else Some rr),
          path_isOval = None, path_isRect = None, isVolatile = False, getGenerationID = 9\<rparr>),
      filterPath = (\<lambda>pe src rec.
         case pe of
           SkDashPathEffect intervals phase \<Rightarrow>
             Some (if intervals = [] then demo_dashedPath else demo_path, rec)
         | SkOtherPathEffect _ \<Rightarrow> None),
      strokeRec_applyToPath = (\<lambda>rec src.
         if \<not> needToApply rec then None
         else Some (if path_isEmpty src then src else demo_path\<lparr>getGenerationID := 10\<rparr>)),
      style_applyToPath = (\<lambda>st src scale.
         if pathEffect st \<noteq> None then None
         else Some (if needToApply (strokeRec st) \<and> \<not> path_isEmpty src
                    then demo_path\<lparr>getGenerationID := 11\<rparr> else src,
                    if getStyle (strokeRec st) = kHairline_Style then kHairline_InitStyle
                    else kFill_InitStyle)),
      kClosed_KeyFlag = 1,
      KeySize = (\<lambda>st apply flags.
         case pathEffect st of
           Some (SkOtherPathEffect _) \<Rightarrow> - 1
         | _ \<Rightarrow> int (length (demo_dashKey st 0) + length (demo_strokeKey st apply 0 flags))),
      WriteKey = (\<lambda>st apply scale flags i.
         (demo_dashKey st scale @ demo_strokeKey st apply scale flags) ! i)\<rparr>"

definition demo_stroke :: SkStrokeRec where
  "demo_stroke =
     \<lparr>getStyle = kStroke_Style, getWidth = 2, getMiter = 4, getCap = 1, getJoin = 0,
      getResScale = 1\<rparr>"

definition demo_dash :: SkPathEffect where
  "demo_dash = SkDashPathEffect [3, 1] 0"

text \<open>A path shape that carries an inherited key, as \<open>applyStyle\<close> produces them.\<close>

definition demo_keyed :: GrShape where
  "demo_keyed =
     \<lparr>fType = kPath, fRRect = SkRRect_default, fPath = Some demo_path,
      fStyle = GrStyle_default, fInheritedKey = [5, 6]\<rparr>"

definition demo_volatile :: GrShape where
  "demo_volatile =
     \<lparr>fType = kPath, fRRect = SkRRect_default, fPath = Some (setIsVolatile True demo_path),
      fStyle = GrStyle_make demo_stroke None, fInheritedKey = []\<rparr>"

text \<open>The rounded rectangle \<open>GrShape_rect demo_rect\<close> builds, stroked and dashed; a
  path shape without a key.\<close>

definition demo_R :: GrShape where
  "demo_R =
     \<lparr>fType = kRRect, fRRect = setRect demo_rect, fPath = None,
      fStyle = GrStyle_make demo_stroke (Some demo_dash), fInheritedKey = []\<rparr>"

definition demo_pathShape :: GrShape where
  "demo_pathShape =
     \<lparr>fType = kPath, fRRect = SkRRect_default, fPath = Some demo_path,
      fStyle = GrStyle_default, fInheritedKey = []\<rparr>"

subsection \<open>Canonicalising again\<close>

text \<open>The geometry of a shape, canonicalised once more: \<^verbatim>\<open>asPath(&path)\<close> and then
  the constructor \<^verbatim>\<open>GrShape(path, style)\<close>, which runs \<open>attemptToReduceFromPath\<close>.\<close>

definition recanonicalize :: "collab \<Rightarrow> GrShape \<Rightarrow> error + GrShape" where
  "recanonicalize env s =
     (case asPath env s of Inl e \<Rightarrow> Inl e | Inr path \<Rightarrow> GrShape_path path (fStyle s))"

text \<open>A path that is not empty and that \<^verbatim>\<open>isOval\<close> recognises, with bounds of no
  width: the oval of the rectangle (0, 0, 0, 2).\<close>

definition demo_flatRect :: SkRect where
  "demo_flatRect = \<lparr>fLeft = 0, fTop = 0, fRight = 0, fBottom = 2\<rparr>"

definition demo_flatOval :: SkPath where
  "demo_flatOval =
     \<lparr>path_isEmpty = False, path_isRRect = None, path_isOval = Some demo_flatRect,
      path_isRect = None, isVolatile = False, getGenerationID = 13\<rparr>"

subsection \<open>Staged application\<close>

text \<open>The words \<^verbatim>\<open>GrStyle::WriteKey\<close> stores for a style: as many as \<^verbatim>\<open>KeySize\<close>
  announced.\<close>

definition styleKey :: "collab \<Rightarrow> GrStyle \<Rightarrow> Apply \<Rightarrow> SkScalar \<Rightarrow> uint32_t \<Rightarrow> uint32_t list" where
  "styleKey env st apply scale flags =
     map (WriteKey env st apply scale flags) [0..<nat (KeySize env st apply flags)]"

text \<open>What \<open>setInheritedKey\<close> decides for a result that is a path: \<open>None\<close> when it
  marks the path volatile, else the words of the inherited key.\<close>

definition inheritedWords ::
  "collab \<Rightarrow> GrShape \<Rightarrow> Apply \<Rightarrow> SkScalar \<Rightarrow> error + uint32_t list option" where
  "inheritedWords env parent apply scale =
     (let styleKeyFlags = (if knownToBeClosed parent then 0 OR kClosed_KeyFlag env else 0);
          styleCnt = KeySize env (fStyle parent) apply styleKeyFlags
      in if fInheritedKey parent \<noteq> [] then
           (if styleCnt < 0 then Inr None
            else Inr (Some (fInheritedKey parent @ styleKey env (fStyle parent) apply scale styleKeyFlags)))
         else
           (case unstyledKeySize env parent of
              Inl e \<Rightarrow> Inl e
            | Inr parentCnt \<Rightarrow>
                if parentCnt < 0 \<or> styleCnt < 0 then Inr None
                else
                  (case writeUnstyledKey env parent of
                     Inl e \<Rightarrow> Inl e
                   | Inr parentKey \<Rightarrow>
                       Inr (Some (parentKey @
                                  styleKey env (fStyle parent) apply scale styleKeyFlags)))))"

text \<open>Applying the path effect alone, then the style that is left.\<close>

definition twoStage :: "collab \<Rightarrow> GrShape \<Rightarrow> SkScalar \<Rightarrow> error + GrShape" where
  "twoStage env R scale =
     (case applyStyle env R kPathEffectOnly scale of
        Inl e \<Rightarrow> Inl e
      | Inr mid \<Rightarrow> applyStyle env mid kPathEffectAndStrokeRec scale)"

text \<open>What is expected of \<^verbatim>\<open>GrStyle::KeySize\<close> and \<^verbatim>\<open>GrStyle::WriteKey\<close>, whose code
  is missing, and what the comment in \<open>setInheritedKey\<close> relies on: the key of the full
  style, written for a closed parent, is the key of its path effect followed by the key
  of the stroke that remains, written for a path; and the one has a key exactly when
  the other two have.\<close>

definition keyComposes :: "collab \<Rightarrow> GrStyle \<Rightarrow> SkScalar \<Rightarrow> bool" where
  "keyComposes env st scale =
     (let closedFlag = 0 OR kClosed_KeyFlag env;
          remaining = GrStyle_make (setResScale scale (strokeRec st)) None
      in ((KeySize env st kPathEffectAndStrokeRec closedFlag < 0) =
          (KeySize env st kPathEffectOnly closedFlag < 0 \<or>
           KeySize env remaining kPathEffectAndStrokeRec 0 < 0)) \<and>
         (0 \<le> KeySize env st kPathEffectAndStrokeRec closedFlag \<longrightarrow>
            styleKey env st kPathEffectAndStrokeRec scale closedFlag =
            styleKey env st kPathEffectOnly scale closedFlag @
            styleKey env remaining kPathEffectAndStrokeRec scale 0))"

text \<open>What is expected of the dash path effect and of the stroker, whose code is
  missing, on the rounded rectangle \<open>R\<close>: the dash leaves the stroke description as it
  found it; stroking an empty path gives an empty path; a path that is an oval or a
  rectangle has bounds that are not empty.\<close>

definition dashContract :: "collab \<Rightarrow> GrShape \<Rightarrow> SkPathEffect \<Rightarrow> SkScalar \<Rightarrow> bool" where
  "dashContract env R pe scale =
     (let rec0 = setResScale scale (strokeRec (fStyle R))
      in case filterPath env pe (addRRect env (fRRect R)) rec0 of
           None \<Rightarrow> True
         | Some (dst, rec) \<Rightarrow>
             rec = rec0 \<and>
             (path_isEmpty dst \<longrightarrow>
                (case strokeRec_applyToPath env rec dst of None \<Rightarrow> True | Some q \<Rightarrow> path_isEmpty q)) \<and>
             (case path_isOval dst of None \<Rightarrow> True | Some r \<Rightarrow> \<not> SkRect_isEmpty r) \<and>
             (case path_isRect dst of None \<Rightarrow> True | Some (r, isClosed) \<Rightarrow> \<not> SkRect_isEmpty r))"

section \<open>Size and contents of the unstyled key\<close>

text \<open>
  C3. \<open>unstyledKeySize\<close> returns the number of inherited key words when there are any;
  otherwise 1 for an empty shape, \<open>kSizeInMemory div 4\<close> for a rounded rectangle (the
  debug build asserts that 4 divides \<open>kSizeInMemory\<close>), 1 for a path that is not
  volatile, whose key is its generation identifier alone, and \<open>-1\<close> for a volatile path.
\<close>

theorem unstyledKeySize_by_variant:
  "(fInheritedKey s \<noteq> [] \<longrightarrow> unstyledKeySize env s = Inr (int (length (fInheritedKey s)))) \<and>
   (fInheritedKey s = [] \<and> fType s = kEmpty \<longrightarrow> unstyledKeySize env s = Inr 1) \<and>
   (fInheritedKey s = [] \<and> fType s = kRRect \<and> kSizeInMemory env mod 4 = 0 \<longrightarrow>
      unstyledKeySize env s = Inr (int (kSizeInMemory env div 4))) \<and>
   (fInheritedKey s = [] \<and> fType s = kRRect \<and> kSizeInMemory env mod 4 \<noteq> 0 \<longrightarrow>
      unstyledKeySize env s = Inl AssertFailed) \<and>
   (fInheritedKey s = [] \<and> fType s = kPath \<and> fPath s = Some p \<and> \<not> isVolatile p \<longrightarrow>
      unstyledKeySize env s = Inr 1 \<and> writeUnstyledKey env s = Inr [getGenerationID p]) \<and>
   (fInheritedKey s = [] \<and> fType s = kPath \<and> fPath s = Some p \<and> isVolatile p \<longrightarrow>
      unstyledKeySize env s = Inr (- 1))"
  by (simp add: unstyledKeySize_def writeUnstyledKey_def fPath_get_def)

theorem unstyledKeySize_by_variant_witness:
  "unstyledKeySize demo_collab demo_keyed = Inr 2 \<and>
   unstyledKeySize demo_collab GrShape_default = Inr 1 \<and>
   unstyledKeySize demo_collab demo_R = Inr 2 \<and>
   unstyledKeySize (demo_collab\<lparr>kSizeInMemory := 7\<rparr>) demo_R = Inl AssertFailed \<and>
   unstyledKeySize demo_collab demo_pathShape = Inr 1 \<and>
   writeUnstyledKey demo_collab demo_pathShape = Inr [7] \<and>
   unstyledKeySize demo_collab demo_volatile = Inr (- 1)"
  using unstyledKeySize_by_variant [of demo_keyed demo_collab]
    unstyledKeySize_by_variant [of GrShape_default demo_collab]
    unstyledKeySize_by_variant [of demo_R demo_collab]
    unstyledKeySize_by_variant [of demo_R "demo_collab\<lparr>kSizeInMemory := 7\<rparr>"]
    unstyledKeySize_by_variant [of demo_pathShape demo_collab demo_path]
    unstyledKeySize_by_variant [of demo_volatile demo_collab "setIsVolatile True demo_path"]
  by (simp add: demo_keyed_def GrShape_default_def demo_R_def demo_pathShape_def
        demo_volatile_def demo_collab_def demo_path_def setIsVolatile_def)

text \<open>
  C4. When \<open>unstyledKeySize\<close> is positive, \<open>writeUnstyledKey\<close> stores exactly that many
  words: the inherited key when there is one, otherwise the word 1 for an empty shape,
  the words of \<open>writeToMemory\<close> for a rounded rectangle, and the generation identifier
  for a path, which is then not volatile. When the size is zero or negative the debug
  build stops at an assertion.
\<close>

theorem writeUnstyledKey_writes_size_words:
  assumes "unstyledKeySize env s = Inr n"
  shows "(0 < n \<longrightarrow>
           (\<exists>ws. writeUnstyledKey env s = Inr ws \<and> int (length ws) = n \<and>
              (fInheritedKey s \<noteq> [] \<longrightarrow> ws = fInheritedKey s) \<and>
              (fInheritedKey s = [] \<and> fType s = kEmpty \<longrightarrow> ws = [1]) \<and>
              (fInheritedKey s = [] \<and> fType s = kRRect \<longrightarrow>
                 ws = map (writeToMemory env (fRRect s)) [0..<kSizeInMemory env div 4]) \<and>
              (fInheritedKey s = [] \<and> fType s = kPath \<longrightarrow>
                 (\<exists>p. fPath s = Some p \<and> \<not> isVolatile p \<and> ws = [getGenerationID p])))) \<and>
         (n \<le> 0 \<longrightarrow> writeUnstyledKey env s = Inl AssertFailed)"
  using assms
  by (auto simp: unstyledKeySize_def writeUnstyledKey_def fPath_get_def
           split: if_splits Type.splits option.splits)

theorem writeUnstyledKey_writes_size_words_witness:
  "unstyledKeySize demo_collab demo_R = Inr 2 \<and>
   writeUnstyledKey demo_collab demo_R = Inr [4, 2] \<and>
   unstyledKeySize demo_collab demo_keyed = Inr 2 \<and>
   writeUnstyledKey demo_collab demo_keyed = Inr [5, 6] \<and>
   unstyledKeySize demo_collab demo_volatile = Inr (- 1) \<and>
   writeUnstyledKey demo_collab demo_volatile = Inl AssertFailed"
proof -
  have R: "unstyledKeySize demo_collab demo_R = Inr 2"
    by (simp add: unstyledKeySize_def demo_R_def demo_collab_def)
  have K: "unstyledKeySize demo_collab demo_keyed = Inr 2"
    by (simp add: unstyledKeySize_def demo_keyed_def)
  have V: "unstyledKeySize demo_collab demo_volatile = Inr (- 1)"
    by (simp add: unstyledKeySize_def demo_volatile_def fPath_get_def setIsVolatile_def)
  have "writeUnstyledKey demo_collab demo_R = Inr [4, 2]"
    using writeUnstyledKey_writes_size_words [OF R]
    by (simp add: demo_R_def demo_collab_def setRect_def demo_rect_def scalarWord_def
          upt_conv_Cons)
  moreover have "writeUnstyledKey demo_collab demo_keyed = Inr [5, 6]"
    using writeUnstyledKey_writes_size_words [OF K] by (simp add: demo_keyed_def)
  moreover have "writeUnstyledKey demo_collab demo_volatile = Inl AssertFailed"
    using writeUnstyledKey_writes_size_words [OF V] by simp
  ultimately show ?thesis using R K V by simp
qed

section \<open>Reduction of a rectangle path\<close>

text \<open>
  C6. A path that is not empty, not a rounded rectangle and not an oval, and that
  \<open>isRect\<close> recognises as the rectangle \<open>rect\<close>, becomes a \<open>kRRect\<close> shape exactly when
  the contour is closed, or the style has no path effect and is a plain fill. The
  rounded rectangle is then \<open>rect\<close> with zero radii; otherwise the shape stays the path.
\<close>

theorem rect_path_reduces_iff_closed_or_fill:
  assumes "\<not> path_isEmpty p" and "path_isRRect p = None" and "path_isOval p = None"
      and "path_isRect p = Some (rect, isClosed)"
  shows "\<exists>s. GrShape_path p st = Inr s \<and>
           (fType s = kRRect \<longleftrightarrow> (isClosed \<or> (pathEffect st = None \<and> isFillStyle (strokeRec st)))) \<and>
           (fType s = kRRect \<longrightarrow>
              fRRect s = setRect rect \<and> fRadii (fRRect s) = replicate 4 (0, 0) \<and> fPath s = None) \<and>
           (fType s \<noteq> kRRect \<longrightarrow> fType s = kPath \<and> fPath s = Some p)"
  using assms
  by (simp add: GrShape_path_def attemptToReduceFromPath_def fPath_get_def
        AttemptToReduceFromPathImpl_def GrShape_default_def setRect_def)

theorem rect_path_reduces_iff_closed_or_fill_witness:
  "(\<exists>s. GrShape_path (demo_rectPath True) (GrStyle_make demo_stroke None) = Inr s \<and>
        fType s = kRRect \<and> fRRect s = setRect demo_rect) \<and>
   (\<exists>s. GrShape_path (demo_rectPath False) (GrStyle_make demo_stroke None) = Inr s \<and>
        fType s = kPath \<and> fPath s = Some (demo_rectPath False)) \<and>
   (\<exists>s. GrShape_path (demo_rectPath False) GrStyle_default = Inr s \<and>
        fType s = kRRect \<and> fRRect s = setRect demo_rect) \<and>
   (\<exists>s. GrShape_path (demo_rectPath False) (GrStyle_make (SkStrokeRec_init kFill_InitStyle) (Some demo_dash)) = Inr s \<and>
        fType s = kPath)"
proof -
  have obs: "\<not> path_isEmpty (demo_rectPath c)" "path_isRRect (demo_rectPath c) = None"
    "path_isOval (demo_rectPath c) = None" "path_isRect (demo_rectPath c) = Some (demo_rect, c)" for c
    by (simp_all add: demo_rectPath_def)
  show ?thesis
    using rect_path_reduces_iff_closed_or_fill [OF obs, of True "GrStyle_make demo_stroke None"]
      rect_path_reduces_iff_closed_or_fill [OF obs, of False "GrStyle_make demo_stroke None"]
      rect_path_reduces_iff_closed_or_fill [OF obs, of False GrStyle_default]
      rect_path_reduces_iff_closed_or_fill [OF obs, of False
        "GrStyle_make (SkStrokeRec_init kFill_InitStyle) (Some demo_dash)"]
    by (auto simp: GrStyle_make_def GrStyle_default_def pathEffect_def strokeRec_def
          isFillStyle_def demo_stroke_def SkStrokeRec_init_def)
qed

section \<open>Copying\<close>

text \<open>
  C2. The copy constructor returns from every case of its switch before it reaches the
  statements that copy the inherited key: the copy of a path shape that carries the key
  \<open>[5, 6]\<close> has no inherited key. The type, the style and the path are copied.
\<close>

theorem copy_constructor_drops_inherited_key:
  "GrShape_copy demo_keyed = Inr (demo_keyed\<lparr>fInheritedKey := []\<rparr>) \<and>
   fInheritedKey demo_keyed = [5, 6]"
  by (simp add: GrShape_copy_def demo_keyed_def GrShape_default_def fPath_get_def)

section \<open>Applying a style\<close>

text \<open>
  C7. When the parent's style has a path effect and its \<open>filterPath\<close> fails,
  \<open>applyStyle\<close> returns the default shape: empty, with the default style, without a path
  and without an inherited key. No error is raised.
\<close>

theorem filter_failure_gives_default_shape:
  assumes "pathEffect (fStyle parent) = Some pe"
      and "srcPath env parent = Inr src"
      and "filterPath env pe src (setResScale scale (strokeRec (fStyle parent))) = None"
  shows "\<exists>s. applyStyle env parent apply scale = Inr s \<and> fType s = kEmpty \<and>
           fStyle s = GrStyle_default \<and> fPath s = None \<and> fInheritedKey s = [] \<and>
           s = GrShape_default"
  using assms
  by (simp add: applyStyle_def applies_def applyPathEffect_def GrShape_default_def)

theorem filter_failure_gives_default_shape_witness:
  "applyStyle demo_collab (demo_R\<lparr>fStyle := GrStyle_make demo_stroke (Some (SkOtherPathEffect 0))\<rparr>)
     kPathEffectAndStrokeRec 2 = Inr GrShape_default"
proof -
  let ?parent = "demo_R\<lparr>fStyle := GrStyle_make demo_stroke (Some (SkOtherPathEffect 0))\<rparr>"
  have pe: "pathEffect (fStyle ?parent) = Some (SkOtherPathEffect 0)"
    by (simp add: pathEffect_def GrStyle_make_def)
  have src: "srcPath demo_collab ?parent = Inr (addRRect demo_collab (setRect demo_rect))"
    by (simp add: srcPath_def asPath_def demo_R_def)
  have fail: "filterPath demo_collab (SkOtherPathEffect 0) (addRRect demo_collab (setRect demo_rect))
                (setResScale 2 (strokeRec (fStyle ?parent))) = None"
    by (simp add: demo_collab_def)
  show ?thesis
    using filter_failure_gives_default_shape [OF pe src fail, of kPathEffectAndStrokeRec]
    by auto
qed

text \<open>
  C8. When the parent's style does not apply, or only the path effect is asked for and
  there is none, \<open>applyStyle\<close> returns a shape with the parent's type, geometry, style
  and inherited key. The parent holds a path exactly when its type is \<open>kPath\<close>, as every
  shape the interface builds does.
\<close>

theorem noop_style_gives_copy_of_parent:
  assumes "\<not> applies (fStyle parent) \<or> (apply = kPathEffectOnly \<and> pathEffect (fStyle parent) = None)"
      and "holdsPath parent"
  shows "\<exists>s. applyStyle env parent apply scale = Inr s \<and> fType s = fType parent \<and>
           geometry s = geometry parent \<and> fStyle s = fStyle parent \<and>
           fInheritedKey s = fInheritedKey parent"
proof -
  have "\<exists>s. GrShape_assign (GrShape_default\<lparr>fType := kEmpty\<rparr>) parent = Inr s \<and>
          fType s = fType parent \<and> geometry s = geometry parent \<and> fStyle s = fStyle parent \<and>
          fInheritedKey s = fInheritedKey parent"
  proof (cases "fType parent")
    case kEmpty
    then show ?thesis by (simp add: GrShape_assign_def GrShape_default_def geometry_def)
  next
    case kRRect
    then show ?thesis by (simp add: GrShape_assign_def GrShape_default_def geometry_def)
  next
    case kPath
    with assms(2) obtain p where "fPath parent = Some p" by (auto simp: holdsPath_def)
    with kPath show ?thesis
      by (simp add: GrShape_assign_def GrShape_default_def geometry_def fPath_get_def)
  qed
  with assms(1) show ?thesis by (simp add: applyStyle_def)
qed

theorem noop_style_gives_copy_of_parent_witness:
  "applyStyle demo_collab demo_keyed kPathEffectAndStrokeRec 2 = Inr demo_keyed \<and>
   applyStyle demo_collab demo_volatile kPathEffectOnly 2 = Inr demo_volatile"
proof -
  have a: "\<not> applies (fStyle demo_keyed) \<or>
           (kPathEffectAndStrokeRec = kPathEffectOnly \<and> pathEffect (fStyle demo_keyed) = None)"
    by (simp add: demo_keyed_def applies_def GrStyle_default_def pathEffect_def strokeRec_def
          needToApply_def SkStrokeRec_init_def)
  have b: "\<not> applies (fStyle demo_volatile) \<or>
           (kPathEffectOnly = kPathEffectOnly \<and> pathEffect (fStyle demo_volatile) = None)"
    by (simp add: demo_volatile_def pathEffect_def GrStyle_make_def)
  have h: "holdsPath demo_keyed" "holdsPath demo_volatile"
    by (simp_all add: holdsPath_def demo_keyed_def demo_volatile_def)
  from noop_style_gives_copy_of_parent [OF a h(1), of demo_collab 2]
  obtain s where s: "applyStyle demo_collab demo_keyed kPathEffectAndStrokeRec 2 = Inr s"
    "fType s = fType demo_keyed" "fStyle s = fStyle demo_keyed"
    "fInheritedKey s = fInheritedKey demo_keyed"
    by blast
  from noop_style_gives_copy_of_parent [OF b h(2), of demo_collab 2]
  obtain t where t: "applyStyle demo_collab demo_volatile kPathEffectOnly 2 = Inr t"
    "fType t = fType demo_volatile"
    by blast
  have "applyStyle demo_collab demo_keyed kPathEffectAndStrokeRec 2 = Inr demo_keyed"
    using a
    by (simp add: applyStyle_def GrShape_assign_def GrShape_default_def demo_keyed_def
          fPath_get_def)
  moreover have "applyStyle demo_collab demo_volatile kPathEffectOnly 2 = Inr demo_volatile"
    using b
    by (simp add: applyStyle_def GrShape_assign_def GrShape_default_def demo_volatile_def
          fPath_get_def)
  ultimately show ?thesis using s t by simp
qed



section \<open>Which shapes carry an inherited key\<close>

text \<open>What the two steps at the end of \<open>applyStyle\<close> leave behind.\<close>

lemma attemptToReduceFromPath_result:
  assumes "attemptToReduceFromPath s = Inr s'"
  shows "fStyle s' = fStyle s"
    and "fType s' \<noteq> kPath \<Longrightarrow> fPath s' = None \<and> fInheritedKey s' = []"
    and "fType s' = kPath \<Longrightarrow> fPath s' = fPath s \<and> fPath s \<noteq> None \<and> fInheritedKey s' = fInheritedKey s"
  using assms
  by (auto simp: attemptToReduceFromPath_def fPath_get_def
           split: if_splits sum.splits option.splits prod.splits)

lemma markVolatile_frame:
  assumes "markVolatile s = Inr s'"
  shows "fType s' = fType s \<and> fInheritedKey s' = fInheritedKey s \<and> fPath s' \<noteq> None"
  using assms by (auto simp: markVolatile_def fPath_get_def split: option.splits)

lemma setInheritedKey_frame:
  assumes "setInheritedKey env s keyParent apply scale = Inr s'"
  shows "fType s' = fType s"
    and "fType s \<noteq> kPath \<Longrightarrow> s' = s"
    and "fType s = kPath \<Longrightarrow> fPath s \<noteq> None \<Longrightarrow> fPath s' \<noteq> None"
  using assms
  by (auto simp: setInheritedKey_def Let_def dest: markVolatile_frame
           split: if_splits sum.splits)

text \<open>The invariant: a shape that is not a path has no inherited key, and a shape
  holds a path exactly when it is one.\<close>

lemma reduceAndInherit_inv:
  assumes "reduceAndInherit env this keyParent apply scale = Inr s"
  shows "(fType s \<noteq> kPath \<longrightarrow> fInheritedKey s = []) \<and> holdsPath s"
proof -
  from assms obtain m where m: "attemptToReduceFromPath this = Inr m"
    and s: "setInheritedKey env m keyParent apply scale = Inr s"
    by (auto simp: reduceAndInherit_def split: sum.splits)
  show ?thesis
  proof (cases "fType m = kPath")
    case True
    with attemptToReduceFromPath_result(3) [OF m] have "fPath m \<noteq> None" by simp
    with True setInheritedKey_frame(1,3) [OF s] show ?thesis by (simp add: holdsPath_def)
  next
    case False
    with setInheritedKey_frame(2) [OF s] have "s = m" by simp
    with False attemptToReduceFromPath_result(2) [OF m] show ?thesis by (simp add: holdsPath_def)
  qed
qed

lemma GrShape_assign_inv:
  assumes "GrShape_assign this that = Inr s"
      and "holdsPath this"
      and "(fType that \<noteq> kPath \<longrightarrow> fInheritedKey that = []) \<and> holdsPath that"
  shows "(fType s \<noteq> kPath \<longrightarrow> fInheritedKey s = []) \<and> holdsPath s"
  using assms
  by (cases "fType that")
     (auto simp: GrShape_assign_def Let_def holdsPath_def fPath_get_def
           split: if_splits option.splits)

lemma GrShape_copy_inv:
  assumes "GrShape_copy that = Inr s"
  shows "fInheritedKey s = [] \<and> holdsPath s"
  using assms
  by (cases "fType that")
     (auto simp: GrShape_copy_def Let_def holdsPath_def fPath_get_def GrShape_default_def
           split: option.splits)

lemma GrShape_path_inv:
  assumes "GrShape_path path st = Inr s"
  shows "fInheritedKey s = [] \<and> holdsPath s"
  using assms
  by (auto simp: GrShape_path_def attemptToReduceFromPath_def fPath_get_def holdsPath_def
        GrShape_default_def split: if_splits sum.splits prod.splits)

lemma GrShape_rrect_inv:
  assumes "GrShape_rrect rrect st = Inr s"
  shows "fInheritedKey s = [] \<and> holdsPath s"
  using assms
  by (auto simp: GrShape_rrect_def attemptToReduceFromRRect_def holdsPath_def
        GrShape_default_def split: if_splits)

lemma applyStyle_inv:
  assumes "applyStyle env parent apply scale = Inr s"
      and "(fType parent \<noteq> kPath \<longrightarrow> fInheritedKey parent = []) \<and> holdsPath parent"
  shows "(fType s \<noteq> kPath \<longrightarrow> fInheritedKey s = []) \<and> holdsPath s"
proof (cases "\<not> applies (fStyle parent) \<or> (apply = kPathEffectOnly \<and> pathEffect (fStyle parent) = None)")
  case True
  with assms(1) have "GrShape_assign (GrShape_default\<lparr>fType := kEmpty\<rparr>) parent = Inr s"
    by (simp add: applyStyle_def)
  moreover have "holdsPath (GrShape_default\<lparr>fType := kEmpty\<rparr>)"
    by (simp add: holdsPath_def GrShape_default_def)
  ultimately show ?thesis using assms(2) by (rule GrShape_assign_inv)
next
  case False
  let ?new = "GrShape_default\<lparr>fType := kPath, fPath := Some SkPath_new\<rparr>"
  from False assms(1) obtain src where
    body: "(case pathEffect (fStyle parent) of
              Some pe \<Rightarrow> applyPathEffect env ?new parent pe src apply scale
            | None \<Rightarrow> applyParentStyle env ?new parent src apply scale) = Inr s"
    by (auto simp: applyStyle_def Let_def split: sum.splits)
  show ?thesis
  proof (cases "pathEffect (fStyle parent)")
    case None
    with body have "applyParentStyle env ?new parent src apply scale = Inr s" by simp
    then obtain t kp where "reduceAndInherit env t kp apply scale = Inr s"
      by (auto simp: applyParentStyle_def split: if_splits option.splits)
    then show ?thesis by (rule reduceAndInherit_inv)
  next
    case (Some pe)
    with body have pe: "applyPathEffect env ?new parent pe src apply scale = Inr s" by simp
    show ?thesis
    proof (cases "filterPath env pe src (setResScale scale (strokeRec (fStyle parent)))")
      case None
      with pe have "s = GrShape_default"
        by (auto simp: applyPathEffect_def GrShape_default_def)
      then show ?thesis by (simp add: GrShape_default_def holdsPath_def)
    next
      case (Some r)
      with pe obtain t kp where "reduceAndInherit env t kp apply scale = Inr s"
        by (cases r) (auto simp: applyPathEffect_def split: if_splits sum.splits option.splits)
      then show ?thesis by (rule reduceAndInherit_inv)
    qed
  qed
qed

lemma reachable_inv:
  assumes "reachable env s"
  shows "(fType s \<noteq> kPath \<longrightarrow> fInheritedKey s = []) \<and> holdsPath s"
  using assms
proof (induction rule: reachable.induct)
  case r_default
  show ?case by (simp add: GrShape_default_def holdsPath_def)
next
  case (r_path path st s)
  then show ?case using GrShape_path_inv by blast
next
  case (r_rrect rrect st s)
  then show ?case using GrShape_rrect_inv by blast
next
  case (r_rect rect st s)
  then show ?case using GrShape_rrect_inv by (simp add: GrShape_rect_def)
next
  case (r_applyStyle parent mode scale s)
  then show ?case using applyStyle_inv by blast
next
  case (r_copy that s)
  then show ?case using GrShape_copy_inv by blast
next
  case (r_assign target source s)
  then show ?case using GrShape_assign_inv by blast
qed

text \<open>
  C10. A shape built through the public interface (constructors, \<open>applyStyle\<close>, copy,
  assignment) has an empty inherited key unless its type is \<open>kPath\<close>. When
  \<open>attemptToReduceFromPath\<close> reduces a path shape to \<open>kEmpty\<close> or \<open>kRRect\<close>, the path
  and the inherited key it held are dropped.
\<close>

theorem only_paths_carry_inherited_key:
  "(reachable env s \<and> fType s \<noteq> kPath \<longrightarrow> fInheritedKey s = []) \<and>
   (attemptToReduceFromPath s0 = Inr s1 \<and> fType s1 \<noteq> kPath \<longrightarrow>
      fPath s1 = None \<and> fInheritedKey s1 = [])"
  using reachable_inv [of env s] attemptToReduceFromPath_result(2) [of s0 s1]
  by blast

theorem only_paths_carry_inherited_key_witness:
  "reachable demo_collab demo_R \<and> fType demo_R = kRRect \<and> fInheritedKey demo_R = [] \<and>
   attemptToReduceFromPath (demo_keyed\<lparr>fPath := Some (demo_rectPath True)\<rparr>) =
     Inr (demo_keyed\<lparr>fType := kRRect, fRRect := setRect demo_rect, fPath := None,
                     fInheritedKey := []\<rparr>) \<and>
   fInheritedKey (demo_keyed\<lparr>fPath := Some (demo_rectPath True)\<rparr>) = [5, 6]"
proof -
  have "GrShape_rect demo_rect (GrStyle_make demo_stroke (Some demo_dash)) = Inr demo_R"
    by (simp add: GrShape_rect_def GrShape_rrect_def attemptToReduceFromRRect_def MakeRect_def
          GrShape_default_def demo_R_def setRect_def demo_rect_def SkRRect_isEmpty_def
          SkRect_isEmpty_def)
  then have r: "reachable demo_collab demo_R" by (rule r_rect)
  have t: "fType demo_R = kRRect" by (simp add: demo_R_def)
  have a: "attemptToReduceFromPath (demo_keyed\<lparr>fPath := Some (demo_rectPath True)\<rparr>) =
             Inr (demo_keyed\<lparr>fType := kRRect, fRRect := setRect demo_rect, fPath := None,
                             fInheritedKey := []\<rparr>)"
    by (simp add: attemptToReduceFromPath_def fPath_get_def AttemptToReduceFromPathImpl_def
          demo_keyed_def demo_rectPath_def)
  show ?thesis
    using only_paths_carry_inherited_key [of demo_collab demo_R
        "demo_keyed\<lparr>fPath := Some (demo_rectPath True)\<rparr>"
        "demo_keyed\<lparr>fType := kRRect, fRRect := setRect demo_rect, fPath := None,
                    fInheritedKey := []\<rparr>"] r t a
    by (simp add: demo_keyed_def)
qed

section \<open>Canonicalising a second time\<close>

text \<open>
  C9. Canonicalisation is not idempotent on every input. A path that is an oval with
  empty bounds is reduced to a \<open>kRRect\<close> shape that holds an empty rounded rectangle:
  of the branches of \<open>AttemptToReduceFromPathImpl\<close> only the one for \<^verbatim>\<open>isRRect\<close> looks
  at emptiness. The constructor for rounded rectangles reduces the same rounded
  rectangle to \<open>kEmpty\<close>, and so does a second reduction of the shape's path form when
  \<^verbatim>\<open>addRRect\<close> adds nothing for an empty rounded rectangle.
\<close>

theorem flat_oval_reduces_twice:
  "GrShape_path demo_flatOval GrStyle_default =
     Inr (GrShape_default\<lparr>fType := kRRect, fRRect := setOval demo_flatRect\<rparr>) \<and>
   SkRRect_isEmpty (setOval demo_flatRect) \<and>
   GrShape_rrect (setOval demo_flatRect) GrStyle_default =
     Inr (GrShape_default\<lparr>fRRect := setOval demo_flatRect\<rparr>) \<and>
   fType (GrShape_default\<lparr>fRRect := setOval demo_flatRect\<rparr>) = kEmpty \<and>
   recanonicalize demo_collab (GrShape_default\<lparr>fType := kRRect, fRRect := setOval demo_flatRect\<rparr>) =
     Inr GrShape_default \<and>
   fType GrShape_default = kEmpty"
proof -
  have empty: "SkRRect_isEmpty (setOval demo_flatRect)"
    by (simp add: SkRRect_isEmpty_def SkRect_isEmpty_def setOval_def demo_flatRect_def)
  have first: "GrShape_path demo_flatOval GrStyle_default =
                 Inr (GrShape_default\<lparr>fType := kRRect, fRRect := setOval demo_flatRect\<rparr>)"
    by (simp add: GrShape_path_def attemptToReduceFromPath_def fPath_get_def
          AttemptToReduceFromPathImpl_def demo_flatOval_def GrShape_default_def)
  have direct: "GrShape_rrect (setOval demo_flatRect) GrStyle_default =
                  Inr (GrShape_default\<lparr>fRRect := setOval demo_flatRect\<rparr>)"
    using empty
    by (simp add: GrShape_rrect_def attemptToReduceFromRRect_def GrShape_default_def)
  have added: "path_isEmpty (addRRect demo_collab (setOval demo_flatRect))"
    using empty by (simp add: demo_collab_def)
  have second: "recanonicalize demo_collab
                  (GrShape_default\<lparr>fType := kRRect, fRRect := setOval demo_flatRect\<rparr>) =
                Inr GrShape_default"
    using added
    by (simp add: recanonicalize_def asPath_def GrShape_path_def attemptToReduceFromPath_def
          fPath_get_def AttemptToReduceFromPathImpl_def GrShape_default_def)
  show ?thesis
    using empty first direct second by (simp add: GrShape_default_def)
qed

text \<open>
  X5. A shape the constructor reduces a path to, and that is empty or still a path, is
  left as it is by a second canonicalisation: the same type, path, style and key.
\<close>

theorem recanonicalize_keeps_empty_and_path:
  assumes "GrShape_path path st = Inr s" and "fType s \<noteq> kRRect"
  shows "recanonicalize env s = Inr s"
proof -
  from assms(1) obtain t rr where
    impl: "AttemptToReduceFromPathImpl path SkRRect_default (pathEffect st) (strokeRec st) = Inr (t, rr)"
    by (auto simp: GrShape_path_def attemptToReduceFromPath_def fPath_get_def GrShape_default_def
             split: sum.splits)
  show ?thesis
  proof (cases t)
    case kEmpty
    with impl assms(1) have s: "s = GrShape_default\<lparr>fStyle := st\<rparr>"
      by (auto simp: GrShape_path_def attemptToReduceFromPath_def fPath_get_def GrShape_default_def
            AttemptToReduceFromPathImpl_def split: if_splits option.splits)
    show ?thesis
      by (simp add: s recanonicalize_def asPath_def GrShape_default_def GrShape_path_def
            attemptToReduceFromPath_def fPath_get_def AttemptToReduceFromPathImpl_def SkPath_new_def)
  next
    case kRRect
    with impl assms(1) have "fType s = kRRect"
      by (auto simp: GrShape_path_def attemptToReduceFromPath_def fPath_get_def GrShape_default_def)
    with assms(2) show ?thesis by simp
  next
    case kPath
    with impl assms(1) have s: "fType s = kPath" "fPath s = Some path" "fStyle s = st"
      by (auto simp: GrShape_path_def attemptToReduceFromPath_def fPath_get_def GrShape_default_def)
    with assms(1) show ?thesis
      by (simp add: recanonicalize_def asPath_def fPath_get_def)
  qed
qed

theorem recanonicalize_keeps_empty_and_path_witness:
  "(\<exists>s. GrShape_path demo_path (GrStyle_make demo_stroke None) = Inr s \<and>
        fType s = kPath \<and> recanonicalize demo_collab s = Inr s) \<and>
   (\<exists>s. GrShape_path SkPath_new (GrStyle_make demo_stroke None) = Inr s \<and>
        fType s = kEmpty \<and> recanonicalize demo_collab s = Inr s)"
proof -
  let ?st = "GrStyle_make demo_stroke None"
  let ?p = "GrShape_default\<lparr>fType := kPath, fPath := Some demo_path, fStyle := ?st\<rparr>"
  let ?e = "GrShape_default\<lparr>fStyle := ?st\<rparr>"
  have p: "GrShape_path demo_path ?st = Inr ?p"
    by (simp add: GrShape_path_def attemptToReduceFromPath_def fPath_get_def GrShape_default_def
          AttemptToReduceFromPathImpl_def demo_path_def)
  have e: "GrShape_path SkPath_new ?st = Inr ?e"
    by (simp add: GrShape_path_def attemptToReduceFromPath_def fPath_get_def GrShape_default_def
          AttemptToReduceFromPathImpl_def SkPath_new_def)
  have "recanonicalize demo_collab ?p = Inr ?p"
    using recanonicalize_keeps_empty_and_path [OF p, of demo_collab]
    by (simp add: GrShape_default_def)
  moreover have "recanonicalize demo_collab ?e = Inr ?e"
    using recanonicalize_keeps_empty_and_path [OF e, of demo_collab]
    by (simp add: GrShape_default_def)
  ultimately show ?thesis using p e by (simp add: GrShape_default_def)
qed

text \<open>
  X6. When the constructor reduces a path to a rounded rectangle that is not empty, the
  constructor for rounded rectangles builds the same shape from that rounded rectangle
  and style.
\<close>

theorem nonempty_rrect_result_is_canonical:
  assumes "GrShape_path path st = Inr s" and "fType s = kRRect"
      and "\<not> SkRRect_isEmpty (fRRect s)"
  shows "GrShape_rrect (fRRect s) (fStyle s) = Inr s"
proof -
  from assms(1) obtain t rr where
    impl: "AttemptToReduceFromPathImpl path SkRRect_default (pathEffect st) (strokeRec st) = Inr (t, rr)"
    by (auto simp: GrShape_path_def attemptToReduceFromPath_def fPath_get_def GrShape_default_def
             split: sum.splits)
  with assms(1,2) have "s = GrShape_default\<lparr>fType := kRRect, fRRect := rr, fStyle := st\<rparr>"
    by (cases t)
       (auto simp: GrShape_path_def attemptToReduceFromPath_def fPath_get_def GrShape_default_def)
  with assms(3) show ?thesis
    by (simp add: GrShape_rrect_def attemptToReduceFromRRect_def GrShape_default_def)
qed

theorem nonempty_rrect_result_is_canonical_witness:
  "GrShape_path (demo_rectPath True) (GrStyle_make demo_stroke None) =
     Inr (GrShape_default\<lparr>fType := kRRect, fRRect := setRect demo_rect,
            fStyle := GrStyle_make demo_stroke None\<rparr>) \<and>
   \<not> SkRRect_isEmpty (setRect demo_rect) \<and>
   GrShape_rrect (setRect demo_rect) (GrStyle_make demo_stroke None) =
     Inr (GrShape_default\<lparr>fType := kRRect, fRRect := setRect demo_rect,
            fStyle := GrStyle_make demo_stroke None\<rparr>)"
proof -
  let ?st = "GrStyle_make demo_stroke None"
  let ?r = "GrShape_default\<lparr>fType := kRRect, fRRect := setRect demo_rect, fStyle := ?st\<rparr>"
  have r: "GrShape_path (demo_rectPath True) ?st = Inr ?r"
    by (simp add: GrShape_path_def attemptToReduceFromPath_def fPath_get_def GrShape_default_def
          AttemptToReduceFromPathImpl_def demo_rectPath_def)
  have t: "fType ?r = kRRect" by simp
  have n: "\<not> SkRRect_isEmpty (fRRect ?r)"
    by (simp add: SkRRect_isEmpty_def SkRect_isEmpty_def setRect_def demo_rect_def)
  from nonempty_rrect_result_is_canonical [OF r t n] r n
  show ?thesis by simp
qed

text \<open>
  X7. For every path that is an oval with empty bounds, and every \<^verbatim>\<open>addRRect\<close> that
  adds nothing for an empty rounded rectangle, the first reduction gives a \<open>kRRect\<close>
  shape with an empty rounded rectangle and the second gives \<open>kEmpty\<close>.
\<close>

theorem empty_oval_not_idempotent:
  assumes "\<not> path_isEmpty p" and "path_isRRect p = None" and "path_isOval p = Some rect"
      and "SkRect_isEmpty rect"
      and "path_isEmpty (addRRect env (setOval rect))"
  shows "\<exists>s s'. GrShape_path p st = Inr s \<and> fType s = kRRect \<and> SkRRect_isEmpty (fRRect s) \<and>
           recanonicalize env s = Inr s' \<and> fType s' = kEmpty"
proof -
  have first: "GrShape_path p st =
                 Inr (GrShape_default\<lparr>fType := kRRect, fRRect := setOval rect, fStyle := st\<rparr>)"
    using assms(1,2,3)
    by (simp add: GrShape_path_def attemptToReduceFromPath_def fPath_get_def
          AttemptToReduceFromPathImpl_def GrShape_default_def)
  have empty: "SkRRect_isEmpty (setOval rect)"
    using assms(4) by (simp add: SkRRect_isEmpty_def setOval_def)
  have second: "recanonicalize env
                  (GrShape_default\<lparr>fType := kRRect, fRRect := setOval rect, fStyle := st\<rparr>) =
                Inr (GrShape_default\<lparr>fStyle := st\<rparr>)"
    using assms(5)
    by (simp add: recanonicalize_def asPath_def GrShape_path_def attemptToReduceFromPath_def
          fPath_get_def AttemptToReduceFromPathImpl_def GrShape_default_def)
  from first empty second show ?thesis by (simp add: GrShape_default_def)
qed

theorem empty_oval_not_idempotent_witness:
  "\<exists>s s'. GrShape_path demo_flatOval (GrStyle_make demo_stroke None) = Inr s \<and>
      fType s = kRRect \<and> SkRRect_isEmpty (fRRect s) \<and>
      recanonicalize demo_collab s = Inr s' \<and> fType s' = kEmpty"
proof -
  have obs: "\<not> path_isEmpty demo_flatOval" "path_isRRect demo_flatOval = None"
    "path_isOval demo_flatOval = Some demo_flatRect"
    by (simp_all add: demo_flatOval_def)
  have flat: "SkRect_isEmpty demo_flatRect"
    by (simp add: SkRect_isEmpty_def demo_flatRect_def)
  have added: "path_isEmpty (addRRect demo_collab (setOval demo_flatRect))"
    using flat by (simp add: demo_collab_def SkRRect_isEmpty_def setOval_def)
  from empty_oval_not_idempotent [OF obs flat added, of "GrStyle_make demo_stroke None"]
  show ?thesis .
qed

section \<open>One stage or two: the same key\<close>

lemma writeUnstyledKey_length:
  assumes "writeUnstyledKey env s = Inr ws"
  shows "unstyledKeySize env s = Inr (int (length ws)) \<and> ws \<noteq> []"
  using assms
  by (auto simp: writeUnstyledKey_def split: sum.splits if_splits prod.splits Type.splits)

lemma setInheritedKey_path:
  assumes "fType m = kPath" and "fInheritedKey m = []"
  shows "setInheritedKey env m parent apply scale =
           (case inheritedWords env parent apply scale of
              Inl e \<Rightarrow> Inl e
            | Inr None \<Rightarrow> markVolatile m
            | Inr (Some ws) \<Rightarrow> Inr (m\<lparr>fInheritedKey := ws\<rparr>))"
  using assms
  by (auto simp: setInheritedKey_def inheritedWords_def styleKey_def Let_def split: sum.splits)

lemma inheritedWords_nonempty:
  assumes "inheritedWords env parent apply scale = Inr (Some ws)"
  shows "ws \<noteq> []"
  using assms
  by (auto simp: inheritedWords_def Let_def split: if_splits sum.splits
           dest: writeUnstyledKey_length)

text \<open>The unstyled key of a path result of \<open>setInheritedKey\<close>.\<close>

lemma path_result_key:
  assumes "setInheritedKey env m parent apply scale = Inr X"
      and "fType m = kPath" and "fInheritedKey m = []"
  shows "\<exists>w. inheritedWords env parent apply scale = Inr w \<and> fType X = kPath \<and>
           fStyle X = fStyle m \<and>
           unstyledKeySize env X = (case w of None \<Rightarrow> Inr (- 1) | Some ws \<Rightarrow> Inr (int (length ws))) \<and>
           writeUnstyledKey env X = (case w of None \<Rightarrow> Inl AssertFailed | Some ws \<Rightarrow> Inr ws) \<and>
           fInheritedKey X = (case w of None \<Rightarrow> [] | Some ws \<Rightarrow> ws)"
proof -
  from assms obtain w where w: "inheritedWords env parent apply scale = Inr w"
    by (auto simp: setInheritedKey_path split: sum.splits)
  show ?thesis
  proof (cases w)
    case None
    with w assms have "markVolatile m = Inr X" by (simp add: setInheritedKey_path)
    then obtain p where "fPath m = Some p" and X: "X = m\<lparr>fPath := Some (setIsVolatile True p)\<rparr>"
      by (auto simp: markVolatile_def fPath_get_def split: option.splits)
    with assms(2,3) w None show ?thesis
      by (simp add: unstyledKeySize_def writeUnstyledKey_def fPath_get_def setIsVolatile_def)
  next
    case (Some ws)
    with w have ne: "ws \<noteq> []" by (auto dest: inheritedWords_nonempty)
    from Some w assms have X: "X = m\<lparr>fInheritedKey := ws\<rparr>" by (simp add: setInheritedKey_path)
    with assms(2) w Some ne show ?thesis
      by (simp add: unstyledKeySize_def writeUnstyledKey_def)
  qed
qed

lemma reduceAndInherit_key:
  assumes "reduceAndInherit env start keyParent apply scale = Inr X"
      and "fInheritedKey start = []"
  shows "(fType X \<noteq> kPath \<and> fInheritedKey X = []) \<or>
         (fType X = kPath \<and>
          (\<exists>w. inheritedWords env keyParent apply scale = Inr w \<and>
             unstyledKeySize env X = (case w of None \<Rightarrow> Inr (- 1) | Some ws \<Rightarrow> Inr (int (length ws))) \<and>
             writeUnstyledKey env X = (case w of None \<Rightarrow> Inl AssertFailed | Some ws \<Rightarrow> Inr ws)))"
proof -
  from assms(1) obtain m where m: "attemptToReduceFromPath start = Inr m"
    and X: "setInheritedKey env m keyParent apply scale = Inr X"
    by (auto simp: reduceAndInherit_def split: sum.splits)
  show ?thesis
  proof (cases "fType m = kPath")
    case True
    with attemptToReduceFromPath_result(3) [OF m] assms(2) have "fInheritedKey m = []" by simp
    from path_result_key [OF X True this] show ?thesis by blast
  next
    case False
    with setInheritedKey_frame(2) [OF X] have "X = m" by simp
    with False attemptToReduceFromPath_result(2) [OF m] show ?thesis by simp
  qed
qed

lemma simple_shape_key:
  assumes "fType X \<noteq> kPath" and "fInheritedKey X = []" and "fInheritedKey Y = []"
      and "fType X = fType Y" and "fType X = kRRect \<Longrightarrow> fRRect X = fRRect Y"
  shows "unstyledKeySize env X = unstyledKeySize env Y \<and>
         writeUnstyledKey env X = writeUnstyledKey env Y"
proof (cases "fType X")
  case kEmpty
  with assms(4) have "fType Y = kEmpty" by simp
  with kEmpty assms(2,3) show ?thesis by (simp add: unstyledKeySize_def writeUnstyledKey_def)
next
  case kRRect
  with assms(4,5) have "fType Y = kRRect" "fRRect X = fRRect Y" by simp_all
  with kRRect assms(2,3) show ?thesis by (simp add: unstyledKeySize_def writeUnstyledKey_def)
next
  case kPath
  with assms(1) show ?thesis by simp
qed

text \<open>The steps \<open>applyStyle\<close> takes on a rounded rectangle with a path effect, and on
  the shape the path effect alone leaves.\<close>

lemma one_stage_steps:
  assumes "fType R = kRRect" and "pathEffect (fStyle R) = Some pe"
      and "filterPath env pe (addRRect env (fRRect R)) (setResScale scale (strokeRec (fStyle R))) =
             Some (dst, rec)"
      and "needToApply rec"
      and "applyStyle env R kPathEffectAndStrokeRec scale = Inr A"
  shows "\<exists>t rr kp q.
           AttemptToReduceFromPathImpl dst SkRRect_default None rec = Inr (t, rr) \<and>
           parentForKey R t rr rec = Inr kp \<and>
           strokeRec_applyToPath env rec dst = Some q \<and>
           reduceAndInherit env (GrShape_default\<lparr>fType := kPath, fPath := Some q\<rparr>) kp
             kPathEffectAndStrokeRec scale = Inr A"
  using assms
  by (auto simp: applyStyle_def applies_def srcPath_def asPath_def applyPathEffect_def Let_def
           split: if_splits sum.splits option.splits)

lemma path_effect_only_steps:
  assumes "fType R = kRRect" and "pathEffect (fStyle R) = Some pe"
      and "filterPath env pe (addRRect env (fRRect R)) (setResScale scale (strokeRec (fStyle R))) =
             Some (dst, rec)"
      and "applyStyle env R kPathEffectOnly scale = Inr mid"
  shows "reduceAndInherit env
           (GrShape_default\<lparr>fType := kPath, fPath := Some dst, fStyle := GrStyle_make rec None\<rparr>) R
           kPathEffectOnly scale = Inr mid"
  using assms
  by (auto simp: applyStyle_def applies_def srcPath_def asPath_def applyPathEffect_def Let_def
           split: if_splits)

lemma stroke_remainder_steps:
  assumes "fStyle mid = GrStyle_make rec None" and "needToApply rec"
      and "applyStyle env mid kPathEffectAndStrokeRec scale = Inr B"
  shows "\<exists>q fillOrHairline.
           reduceAndInherit env
             (GrShape_default\<lparr>fType := kPath, fPath := Some q, fStyle := resetToInitStyle fillOrHairline\<rparr>)
             mid kPathEffectAndStrokeRec scale = Inr B"
  using assms
  by (auto simp: applyStyle_def applies_def applyParentStyle_def pathEffect_def strokeRec_def
        GrStyle_make_def Let_def split: if_splits sum.splits option.splits)

lemma mid_shape:
  assumes "reduceAndInherit env
             (GrShape_default\<lparr>fType := kPath, fPath := Some dst, fStyle := GrStyle_make rec None\<rparr>) R
             kPathEffectOnly scale = Inr mid"
      and "AttemptToReduceFromPathImpl dst SkRRect_default None rec = Inr (t, rr)"
  shows "fStyle mid = GrStyle_make rec None"
    and "t \<noteq> kPath \<Longrightarrow>
           mid = GrShape_default\<lparr>fType := t, fRRect := rr, fStyle := GrStyle_make rec None\<rparr>"
    and "t = kPath \<Longrightarrow>
           fType mid = kPath \<and>
           (\<exists>w. inheritedWords env R kPathEffectOnly scale = Inr w \<and>
              fInheritedKey mid = (case w of None \<Rightarrow> [] | Some ws \<Rightarrow> ws) \<and>
              unstyledKeySize env mid =
                (case w of None \<Rightarrow> Inr (- 1) | Some ws \<Rightarrow> Inr (int (length ws))))"
proof -
  let ?start = "GrShape_default\<lparr>fType := kPath, fPath := Some dst, fStyle := GrStyle_make rec None\<rparr>"
  have red: "attemptToReduceFromPath ?start =
               (if t \<noteq> kPath
                then Inr (GrShape_default\<lparr>fType := t, fRRect := rr, fStyle := GrStyle_make rec None\<rparr>)
                else Inr (?start\<lparr>fRRect := rr\<rparr>))"
    using assms(2)
    by (simp add: attemptToReduceFromPath_def fPath_get_def GrShape_default_def pathEffect_def
          strokeRec_def GrStyle_make_def)
  from assms(1) obtain m where m: "attemptToReduceFromPath ?start = Inr m"
    and X: "setInheritedKey env m R kPathEffectOnly scale = Inr mid"
    by (auto simp: reduceAndInherit_def split: sum.splits)
  show "t \<noteq> kPath \<Longrightarrow>
          mid = GrShape_default\<lparr>fType := t, fRRect := rr, fStyle := GrStyle_make rec None\<rparr>"
    using m X red setInheritedKey_frame(2) [OF X] by auto
  show "t = kPath \<Longrightarrow>
           fType mid = kPath \<and>
           (\<exists>w. inheritedWords env R kPathEffectOnly scale = Inr w \<and>
              fInheritedKey mid = (case w of None \<Rightarrow> [] | Some ws \<Rightarrow> ws) \<and>
              unstyledKeySize env mid =
                (case w of None \<Rightarrow> Inr (- 1) | Some ws \<Rightarrow> Inr (int (length ws))))"
  proof -
    assume t: "t = kPath"
    with m red have "fType m = kPath" "fInheritedKey m = []"
      by (auto simp: GrShape_default_def)
    from path_result_key [OF X this] show ?thesis by blast
  qed
  show "fStyle mid = GrStyle_make rec None"
  proof (cases "t = kPath")
    case True
    with m red have "fType m = kPath" "fInheritedKey m = []" "fStyle m = GrStyle_make rec None"
      by (auto simp: GrShape_default_def)
    with path_result_key [OF X this(1,2)] show ?thesis by auto
  next
    case False
    with m X red setInheritedKey_frame(2) [OF X] show ?thesis by auto
  qed
qed

text \<open>The key a rounded rectangle hands down in one stage is the key the shape in the
  middle hands down in the second.\<close>

lemma keys_compose:
  assumes "fType R = kRRect" and "fInheritedKey R = []"
      and "keyComposes env (fStyle R) scale"
      and "inheritedWords env R kPathEffectAndStrokeRec scale = Inr wA"
      and "inheritedWords env R kPathEffectOnly scale = Inr w1"
      and "fType mid = kPath"
      and "fStyle mid = GrStyle_make (setResScale scale (strokeRec (fStyle R))) None"
      and "fInheritedKey mid = (case w1 of None \<Rightarrow> [] | Some ws \<Rightarrow> ws)"
      and "unstyledKeySize env mid =
             (case w1 of None \<Rightarrow> Inr (- 1) | Some ws \<Rightarrow> Inr (int (length ws)))"
      and "inheritedWords env mid kPathEffectAndStrokeRec scale = Inr wB"
  shows "wA = wB"
proof -
  let ?flag = "kClosed_KeyFlag env"
  let ?rest = "GrStyle_make (setResScale scale (strokeRec (fStyle R))) None"
  let ?full = "KeySize env (fStyle R) kPathEffectAndStrokeRec ?flag"
  let ?peOnly = "KeySize env (fStyle R) kPathEffectOnly ?flag"
  let ?remaining = "KeySize env ?rest kPathEffectAndStrokeRec 0"
  from assms(3) have neg: "(?full < 0) = (?peOnly < 0 \<or> ?remaining < 0)"
    and cat: "0 \<le> ?full \<Longrightarrow>
      styleKey env (fStyle R) kPathEffectAndStrokeRec scale ?flag =
      styleKey env (fStyle R) kPathEffectOnly scale ?flag @
      styleKey env ?rest kPathEffectAndStrokeRec scale 0"
    by (simp_all add: keyComposes_def Let_def)
  from assms(1,2,4) obtain n where n: "unstyledKeySize env R = Inr n" "0 \<le> n"
    by (auto simp: inheritedWords_def unstyledKeySize_def Let_def split: if_splits)
  have A: "wA = None" if "?full < 0"
    using that assms(1,2,4) n
    by (auto simp: inheritedWords_def knownToBeClosed_def Let_def split: sum.splits)
  have A': "\<exists>pk. writeUnstyledKey env R = Inr pk \<and>
              wA = Some (pk @ styleKey env (fStyle R) kPathEffectAndStrokeRec scale ?flag)"
    if "0 \<le> ?full"
    using that assms(1,2,4) n
    by (auto simp: inheritedWords_def knownToBeClosed_def Let_def split: sum.splits)
  have M: "w1 = None" if "?peOnly < 0"
    using that assms(1,2,5) n
    by (auto simp: inheritedWords_def knownToBeClosed_def Let_def split: sum.splits)
  have M': "\<exists>pk. writeUnstyledKey env R = Inr pk \<and>
              w1 = Some (pk @ styleKey env (fStyle R) kPathEffectOnly scale ?flag)"
    if "0 \<le> ?peOnly"
    using that assms(1,2,5) n
    by (auto simp: inheritedWords_def knownToBeClosed_def Let_def split: sum.splits)
  have B: "wB = None" if "w1 = None"
    using that assms(6,8,9,10)
    by (auto simp: inheritedWords_def Let_def split: sum.splits)
  have B': "wB = (if ?remaining < 0 then None
                  else Some (ws @ styleKey env ?rest kPathEffectAndStrokeRec scale 0))"
    if "w1 = Some ws" for ws
  proof -
    from that assms(5) have "ws \<noteq> []" by (auto dest: inheritedWords_nonempty)
    with that assms(6,7,8,10) show ?thesis
      by (auto simp: inheritedWords_def knownToBeClosed_def Let_def)
  qed
  show ?thesis
  proof (cases "?full < 0")
    case True
    show ?thesis
    proof (cases "?peOnly < 0")
      case True
      with M B A \<open>?full < 0\<close> show ?thesis by simp
    next
      case False
      with neg \<open>?full < 0\<close> have r: "?remaining < 0" by simp
      from False M' obtain ws where "w1 = Some ws" by auto
      with B' r A \<open>?full < 0\<close> show ?thesis by simp
    qed
  next
    case False
    with neg have pos: "0 \<le> ?peOnly" "0 \<le> ?remaining" by auto
    from False A' obtain pk where
      pk: "writeUnstyledKey env R = Inr pk"
          "wA = Some (pk @ styleKey env (fStyle R) kPathEffectAndStrokeRec scale ?flag)"
      by auto
    from pos(1) M' pk(1) have
      "w1 = Some (pk @ styleKey env (fStyle R) kPathEffectOnly scale ?flag)"
      by auto
    from B' [OF this] pos(2) have
      "wB = Some ((pk @ styleKey env (fStyle R) kPathEffectOnly scale ?flag) @
                  styleKey env ?rest kPathEffectAndStrokeRec scale 0)"
      by simp
    with pk(2) cat False show ?thesis by simp
  qed
qed

lemma reduced_to_empty:
  assumes "AttemptToReduceFromPathImpl dst rr0 pe rec = Inr (kEmpty, rr)"
  shows "path_isEmpty dst"
  using assms
  by (auto simp: AttemptToReduceFromPathImpl_def split: if_splits option.splits)

lemma reduced_to_rrect_not_empty:
  assumes "AttemptToReduceFromPathImpl dst rr0 pe rec = Inr (kRRect, rr)"
      and "case path_isOval dst of None \<Rightarrow> True | Some r \<Rightarrow> \<not> SkRect_isEmpty r"
      and "case path_isRect dst of None \<Rightarrow> True | Some (r, isClosed) \<Rightarrow> \<not> SkRect_isEmpty r"
  shows "\<not> SkRRect_isEmpty rr"
  using assms
  by (auto simp: AttemptToReduceFromPathImpl_def SkRRect_isEmpty_def setOval_def setRect_def
           split: if_splits option.splits)

lemma empty_path_reduces_to_empty:
  assumes "reduceAndInherit env start keyParent apply scale = Inr X"
      and "fType start = kPath" and "fPath start = Some q" and "path_isEmpty q"
  shows "fType X = kEmpty"
proof -
  from assms(1) obtain m where m: "attemptToReduceFromPath start = Inr m"
    and X: "setInheritedKey env m keyParent apply scale = Inr X"
    by (auto simp: reduceAndInherit_def split: sum.splits)
  from m assms(2,3,4) have "fType m = kEmpty"
    by (auto simp: attemptToReduceFromPath_def fPath_get_def AttemptToReduceFromPathImpl_def)
  with setInheritedKey_frame(1) [OF X] show ?thesis by simp
qed

text \<open>The definitions a run on the concrete inputs unfolds.\<close>

lemmas demo_defs = demo_R_def demo_collab_def demo_stroke_def demo_dash_def demo_path_def
  demo_rect_def demo_dashedPath_def demo_pathShape_def demo_dashKey_def demo_strokeKey_def
  scalarWord_def

lemmas shape_defs = applyStyle_def applies_def pathEffect_def strokeRec_def GrStyle_make_def
  needToApply_def srcPath_def asPath_def applyPathEffect_def setResScale_def
  AttemptToReduceFromPathImpl_def parentForKey_def reduceAndInherit_def
  attemptToReduceFromPath_def fPath_get_def setInheritedKey_def knownToBeClosed_def
  unstyledKeySize_def writeUnstyledKey_def GrShape_default_def GrStyle_default_def
  SkStrokeRec_init_def SkRRect_default_def setRect_def SkRRect_isEmpty_def SkRect_isEmpty_def
  applyParentStyle_def resetToInitStyle_def GrShape_rrect_def attemptToReduceFromRRect_def
  SkPath_new_def isFillStyle_def

text \<open>
  C1. Let \<open>R\<close> be a rounded-rectangle shape whose style strokes and carries a dash path
  effect. Apply the style in one stage (\<open>kPathEffectAndStrokeRec\<close>) to get \<open>A\<close>, and
  in two stages (\<open>kPathEffectOnly\<close>, then the style that is left) to get \<open>B\<close>. When
  both results have the same geometry (the same type, and the same rounded rectangle
  when they are one), they have the same unstyled key: the same size and the same
  words. \<open>keyComposes\<close> and \<open>dashContract\<close> state what the proof uses of the
  collaborators whose code is missing.
\<close>

theorem staged_application_same_key:
  assumes "fType R = kRRect" and "fInheritedKey R = []"
      and "pathEffect (fStyle R) = Some (SkDashPathEffect intervals phase)"
      and "needToApply (strokeRec (fStyle R))"
      and "dashContract env R (SkDashPathEffect intervals phase) scale"
      and "keyComposes env (fStyle R) scale"
      and "applyStyle env R kPathEffectAndStrokeRec scale = Inr A"
      and "twoStage env R scale = Inr B"
      and "fType A = fType B" and "fType A = kRRect \<Longrightarrow> fRRect A = fRRect B"
  shows "unstyledKeySize env A = unstyledKeySize env B \<and>
         writeUnstyledKey env A = writeUnstyledKey env B"
proof -
  let ?pe = "SkDashPathEffect intervals phase"
  let ?rec = "setResScale scale (strokeRec (fStyle R))"
  let ?src = "addRRect env (fRRect R)"
  have need: "needToApply ?rec"
    using assms(4) by (simp add: needToApply_def setResScale_def)
  from assms(8) obtain mid where mid: "applyStyle env R kPathEffectOnly scale = Inr mid"
    and B: "applyStyle env mid kPathEffectAndStrokeRec scale = Inr B"
    by (auto simp: twoStage_def split: sum.splits)
  show ?thesis
  proof (cases "filterPath env ?pe ?src ?rec")
    case None
    with assms(1,3,7) have A: "A = GrShape_default"
      by (auto simp: applyStyle_def applies_def srcPath_def asPath_def applyPathEffect_def
            GrShape_default_def)
    from None assms(1,3) mid have "mid = GrShape_default"
      by (auto simp: applyStyle_def applies_def srcPath_def asPath_def applyPathEffect_def
            GrShape_default_def)
    with B have "B = GrShape_default"
      by (auto simp: applyStyle_def applies_def GrShape_assign_def GrShape_default_def
            GrStyle_default_def pathEffect_def strokeRec_def needToApply_def SkStrokeRec_init_def)
    with A show ?thesis by simp
  next
    case (Some r)
    obtain dst rec where r: "r = (dst, rec)" by (cases r)
    with Some assms(5) have c:
      "rec = ?rec \<and>
       (path_isEmpty dst \<longrightarrow>
          (case strokeRec_applyToPath env rec dst of None \<Rightarrow> True | Some q \<Rightarrow> path_isEmpty q)) \<and>
       (case path_isOval dst of None \<Rightarrow> True | Some r \<Rightarrow> \<not> SkRect_isEmpty r) \<and>
       (case path_isRect dst of None \<Rightarrow> True | Some (r, isClosed) \<Rightarrow> \<not> SkRect_isEmpty r)"
      by (auto simp: dashContract_def Let_def)
    then have rec: "rec = ?rec" by simp
    from c rec have stroke_empty: "path_isEmpty dst \<Longrightarrow>
            (case strokeRec_applyToPath env ?rec dst of None \<Rightarrow> True | Some q \<Rightarrow> path_isEmpty q)"
      by simp
    from c have oval: "case path_isOval dst of None \<Rightarrow> True | Some r \<Rightarrow> \<not> SkRect_isEmpty r"
      and rect: "case path_isRect dst of None \<Rightarrow> True | Some (r, isClosed) \<Rightarrow> \<not> SkRect_isEmpty r"
      by simp_all
    from Some r rec have filt: "filterPath env ?pe ?src ?rec = Some (dst, ?rec)" by simp
    from one_stage_steps [OF assms(1,3) filt need assms(7)] obtain t rr kp q where
      impl: "AttemptToReduceFromPathImpl dst SkRRect_default None ?rec = Inr (t, rr)"
      and kp: "parentForKey R t rr ?rec = Inr kp"
      and q: "strokeRec_applyToPath env ?rec dst = Some q"
      and A: "reduceAndInherit env (GrShape_default\<lparr>fType := kPath, fPath := Some q\<rparr>) kp
                kPathEffectAndStrokeRec scale = Inr A"
      by blast
    note m = path_effect_only_steps [OF assms(1,3) filt mid]
    note shape = mid_shape [OF m impl]
    from stroke_remainder_steps [OF shape(1) need B] obtain q' fillOrHairline where
      B': "reduceAndInherit env
             (GrShape_default\<lparr>fType := kPath, fPath := Some q',
                fStyle := resetToInitStyle fillOrHairline\<rparr>)
             mid kPathEffectAndStrokeRec scale = Inr B"
      by blast
    have keyA: "(fType A \<noteq> kPath \<and> fInheritedKey A = []) \<or>
         (fType A = kPath \<and>
          (\<exists>w. inheritedWords env kp kPathEffectAndStrokeRec scale = Inr w \<and>
             unstyledKeySize env A = (case w of None \<Rightarrow> Inr (- 1) | Some ws \<Rightarrow> Inr (int (length ws))) \<and>
             writeUnstyledKey env A = (case w of None \<Rightarrow> Inl AssertFailed | Some ws \<Rightarrow> Inr ws)))"
      by (rule reduceAndInherit_key [OF A]) (simp add: GrShape_default_def)
    have keyB: "(fType B \<noteq> kPath \<and> fInheritedKey B = []) \<or>
         (fType B = kPath \<and>
          (\<exists>w. inheritedWords env mid kPathEffectAndStrokeRec scale = Inr w \<and>
             unstyledKeySize env B = (case w of None \<Rightarrow> Inr (- 1) | Some ws \<Rightarrow> Inr (int (length ws))) \<and>
             writeUnstyledKey env B = (case w of None \<Rightarrow> Inl AssertFailed | Some ws \<Rightarrow> Inr ws)))"
      by (rule reduceAndInherit_key [OF B']) (simp add: GrShape_default_def)
    show ?thesis
    proof (cases "fType A = kPath")
      case False
      with keyA keyB assms(9) have "fInheritedKey A = []" "fInheritedKey B = []" by auto
      with False assms(9,10) show ?thesis by (intro simple_shape_key) auto
    next
      case True
      with keyA obtain wA where wA: "inheritedWords env kp kPathEffectAndStrokeRec scale = Inr wA"
        "unstyledKeySize env A = (case wA of None \<Rightarrow> Inr (- 1) | Some ws \<Rightarrow> Inr (int (length ws)))"
        "writeUnstyledKey env A = (case wA of None \<Rightarrow> Inl AssertFailed | Some ws \<Rightarrow> Inr ws)"
        by auto
      from True assms(9) keyB obtain wB where
        wB: "inheritedWords env mid kPathEffectAndStrokeRec scale = Inr wB"
        "unstyledKeySize env B = (case wB of None \<Rightarrow> Inr (- 1) | Some ws \<Rightarrow> Inr (int (length ws)))"
        "writeUnstyledKey env B = (case wB of None \<Rightarrow> Inl AssertFailed | Some ws \<Rightarrow> Inr ws)"
        by auto
      have "wA = wB"
      proof (cases t)
        case kEmpty
        with impl have "path_isEmpty dst" by (auto dest: reduced_to_empty)
        with stroke_empty q have "path_isEmpty q" by simp
        with empty_path_reduces_to_empty [OF A] have "fType A = kEmpty" by simp
        with True show ?thesis by simp
      next
        case kRRect
        with impl oval rect have "\<not> SkRRect_isEmpty rr"
          by (auto dest: reduced_to_rrect_not_empty)
        with kRRect kp have
          "kp = GrShape_default\<lparr>fType := kRRect, fRRect := rr, fStyle := GrStyle_make ?rec None\<rparr>"
          by (simp add: parentForKey_def GrShape_rrect_def attemptToReduceFromRRect_def
                GrShape_default_def)
        with kRRect shape(2) have "kp = mid" by simp
        with wA(1) wB(1) show ?thesis by simp
      next
        case kPath
        with kp have "kp = R" by (simp add: parentForKey_def)
        with wA(1) have a: "inheritedWords env R kPathEffectAndStrokeRec scale = Inr wA" by simp
        from kPath shape(3) obtain w1 where
          w1: "inheritedWords env R kPathEffectOnly scale = Inr w1"
          "fInheritedKey mid = (case w1 of None \<Rightarrow> [] | Some ws \<Rightarrow> ws)"
          "unstyledKeySize env mid =
             (case w1 of None \<Rightarrow> Inr (- 1) | Some ws \<Rightarrow> Inr (int (length ws)))"
          and tm: "fType mid = kPath"
          by auto
        from keys_compose [OF assms(1,2,6) a w1(1) tm shape(1) w1(2,3) wB(1)]
        show ?thesis .
      qed
      with wA(2,3) wB(2,3) show ?thesis by simp
    qed
  qed
qed

theorem staged_application_same_key_witness:
  "applyStyle demo_collab demo_R kPathEffectAndStrokeRec 2 =
     Inr (demo_pathShape\<lparr>fPath := Some (demo_path\<lparr>getGenerationID := 10\<rparr>),
            fInheritedKey := [4, 2, 2, 0, 3, 1, 2, 1, 4, 2]\<rparr>) \<and>
   twoStage demo_collab demo_R 2 =
     Inr (demo_pathShape\<lparr>fPath := Some (demo_path\<lparr>getGenerationID := 11\<rparr>),
            fInheritedKey := [4, 2, 2, 0, 3, 1, 2, 1, 4, 2]\<rparr>) \<and>
   writeUnstyledKey demo_collab
     (demo_pathShape\<lparr>fPath := Some (demo_path\<lparr>getGenerationID := 11\<rparr>),
        fInheritedKey := [4, 2, 2, 0, 3, 1, 2, 1, 4, 2]\<rparr>) =
     Inr [4, 2, 2, 0, 3, 1, 2, 1, 4, 2] \<and>
   applyStyle demo_collab (demo_R\<lparr>fStyle := GrStyle_make demo_stroke (Some (SkDashPathEffect [] 0))\<rparr>)
       kPathEffectAndStrokeRec 2 =
     Inr (demo_pathShape\<lparr>fPath := Some (demo_path\<lparr>getGenerationID := 10\<rparr>),
            fInheritedKey := [3, 1, 2, 0, 4, 2]\<rparr>) \<and>
   twoStage demo_collab (demo_R\<lparr>fStyle := GrStyle_make demo_stroke (Some (SkDashPathEffect [] 0))\<rparr>) 2 =
     Inr (demo_pathShape\<lparr>fPath := Some (demo_path\<lparr>getGenerationID := 11\<rparr>),
            fInheritedKey := [3, 1, 2, 0, 4, 2]\<rparr>) \<and>
   writeUnstyledKey demo_collab
     (demo_pathShape\<lparr>fPath := Some (demo_path\<lparr>getGenerationID := 11\<rparr>),
        fInheritedKey := [3, 1, 2, 0, 4, 2]\<rparr>) =
     Inr [3, 1, 2, 0, 4, 2]"
proof -
  let ?R2 = "demo_R\<lparr>fStyle := GrStyle_make demo_stroke (Some (SkDashPathEffect [] 0))\<rparr>"
  let ?A = "demo_pathShape\<lparr>fPath := Some (demo_path\<lparr>getGenerationID := 10\<rparr>),
              fInheritedKey := [4, 2, 2, 0, 3, 1, 2, 1, 4, 2]\<rparr>"
  let ?B = "demo_pathShape\<lparr>fPath := Some (demo_path\<lparr>getGenerationID := 11\<rparr>),
              fInheritedKey := [4, 2, 2, 0, 3, 1, 2, 1, 4, 2]\<rparr>"
  let ?A2 = "demo_pathShape\<lparr>fPath := Some (demo_path\<lparr>getGenerationID := 10\<rparr>),
               fInheritedKey := [3, 1, 2, 0, 4, 2]\<rparr>"
  let ?B2 = "demo_pathShape\<lparr>fPath := Some (demo_path\<lparr>getGenerationID := 11\<rparr>),
               fInheritedKey := [3, 1, 2, 0, 4, 2]\<rparr>"
  have R: "fType demo_R = kRRect" "fInheritedKey demo_R = []"
    "pathEffect (fStyle demo_R) = Some (SkDashPathEffect [3, 1] 0)"
    "needToApply (strokeRec (fStyle demo_R))"
    by (simp_all add: shape_defs demo_defs)
  have R2: "fType ?R2 = kRRect" "fInheritedKey ?R2 = []"
    "pathEffect (fStyle ?R2) = Some (SkDashPathEffect [] 0)"
    "needToApply (strokeRec (fStyle ?R2))"
    by (simp_all add: shape_defs demo_defs)
  have d: "dashContract demo_collab demo_R (SkDashPathEffect [3, 1] 0) 2"
    by (simp add: dashContract_def shape_defs demo_defs)
  have d2: "dashContract demo_collab ?R2 (SkDashPathEffect [] 0) 2"
    by (simp add: dashContract_def shape_defs demo_defs)
  have k: "keyComposes demo_collab (fStyle demo_R) 2"
    by (simp add: keyComposes_def styleKey_def shape_defs demo_defs upt_conv_Cons)
  have k2: "keyComposes demo_collab (fStyle ?R2) 2"
    by (simp add: keyComposes_def styleKey_def shape_defs demo_defs upt_conv_Cons)
  have A: "applyStyle demo_collab demo_R kPathEffectAndStrokeRec 2 = Inr ?A"
    by (simp add: shape_defs demo_defs upt_conv_Cons)
  have B: "twoStage demo_collab demo_R 2 = Inr ?B"
    by (simp add: twoStage_def shape_defs demo_defs upt_conv_Cons)
  have A2: "applyStyle demo_collab ?R2 kPathEffectAndStrokeRec 2 = Inr ?A2"
    by (simp add: shape_defs demo_defs upt_conv_Cons)
  have B2: "twoStage demo_collab ?R2 2 = Inr ?B2"
    by (simp add: twoStage_def shape_defs demo_defs upt_conv_Cons)
  have wA: "writeUnstyledKey demo_collab ?A = Inr [4, 2, 2, 0, 3, 1, 2, 1, 4, 2]"
    by (simp add: writeUnstyledKey_def unstyledKeySize_def demo_pathShape_def)
  have wA2: "writeUnstyledKey demo_collab ?A2 = Inr [3, 1, 2, 0, 4, 2]"
    by (simp add: writeUnstyledKey_def unstyledKeySize_def demo_pathShape_def)
  have "writeUnstyledKey demo_collab ?A = writeUnstyledKey demo_collab ?B"
    using staged_application_same_key [OF R d k A B] by (simp add: demo_pathShape_def)
  moreover have "writeUnstyledKey demo_collab ?A2 = writeUnstyledKey demo_collab ?B2"
    using staged_application_same_key [OF R2 d2 k2 A2 B2] by (simp add: demo_pathShape_def)
  ultimately show ?thesis using A B A2 B2 wA wA2 by simp
qed

section \<open>Assignment and copy, field by field\<close>

text \<open>
  X1. Assignment gives the target the type, the geometry, the style and the inherited
  key of the source, whatever the target held before. The rounded rectangle a target
  held stays in its storage when the source is not one, out of reach of every query.
\<close>

theorem assign_takes_source_value:
  assumes "holdsPath target" and "holdsPath source"
  shows "\<exists>s. GrShape_assign target source = Inr s \<and> fType s = fType source \<and>
           geometry s = geometry source \<and> fStyle s = fStyle source \<and>
           fInheritedKey s = fInheritedKey source \<and> holdsPath s"
proof (cases "fType source")
  case kEmpty
  with assms show ?thesis
    by (auto simp: GrShape_assign_def Let_def geometry_def holdsPath_def)
next
  case kRRect
  with assms show ?thesis
    by (auto simp: GrShape_assign_def Let_def geometry_def holdsPath_def)
next
  case kPath
  with assms(2) obtain p where p: "fPath source = Some p" by (auto simp: holdsPath_def)
  show ?thesis
  proof (cases "fType target = kPath")
    case True
    with assms(1) obtain p' where "fPath target = Some p'" by (auto simp: holdsPath_def)
    with True kPath p show ?thesis
      by (simp add: GrShape_assign_def Let_def geometry_def holdsPath_def fPath_get_def)
  next
    case False
    with kPath p show ?thesis
      by (simp add: GrShape_assign_def Let_def geometry_def holdsPath_def fPath_get_def)
  qed
qed

theorem assign_takes_source_value_witness:
  "GrShape_assign demo_R demo_keyed = Inr (demo_keyed\<lparr>fRRect := setRect demo_rect\<rparr>) \<and>
   GrShape_assign demo_keyed demo_R = Inr demo_R \<and>
   GrShape_assign demo_volatile demo_keyed = Inr demo_keyed"
proof -
  have h: "holdsPath demo_R" "holdsPath demo_keyed" "holdsPath demo_volatile"
    by (simp_all add: holdsPath_def demo_R_def demo_keyed_def demo_volatile_def)
  from assign_takes_source_value [OF h(1,2)] assign_takes_source_value [OF h(2,1)]
    assign_takes_source_value [OF h(3,2)]
  have "\<exists>a b c. GrShape_assign demo_R demo_keyed = Inr a \<and>
          GrShape_assign demo_keyed demo_R = Inr b \<and>
          GrShape_assign demo_volatile demo_keyed = Inr c"
    by blast
  then show ?thesis
    by (simp add: GrShape_assign_def Let_def fPath_get_def demo_R_def demo_keyed_def
          demo_volatile_def SkRRect_default_def setRect_def)
qed

text \<open>
  X2. The copy constructor copies the type, the geometry and the style of its source;
  the inherited key of the copy is always empty.
\<close>

theorem copy_keeps_all_but_key:
  assumes "holdsPath source"
  shows "\<exists>s. GrShape_copy source = Inr s \<and> fType s = fType source \<and>
           geometry s = geometry source \<and> fStyle s = fStyle source \<and>
           fInheritedKey s = []"
proof (cases "fType source")
  case kEmpty
  then show ?thesis by (simp add: GrShape_copy_def Let_def geometry_def GrShape_default_def)
next
  case kRRect
  then show ?thesis by (simp add: GrShape_copy_def Let_def geometry_def GrShape_default_def)
next
  case kPath
  with assms obtain p where "fPath source = Some p" by (auto simp: holdsPath_def)
  with kPath show ?thesis
    by (simp add: GrShape_copy_def Let_def geometry_def GrShape_default_def fPath_get_def)
qed

theorem copy_keeps_all_but_key_witness:
  "holdsPath demo_R \<and> GrShape_copy demo_R = Inr demo_R \<and>
   holdsPath demo_volatile \<and> GrShape_copy demo_volatile = Inr demo_volatile"
proof -
  have h: "holdsPath demo_R" "holdsPath demo_volatile"
    by (simp_all add: holdsPath_def demo_R_def demo_volatile_def)
  from copy_keeps_all_but_key [OF h(1)] copy_keeps_all_but_key [OF h(2)]
  have "\<exists>a b. GrShape_copy demo_R = Inr a \<and> GrShape_copy demo_volatile = Inr b"
    by blast
  then show ?thesis
    using h
    by (simp add: GrShape_copy_def Let_def fPath_get_def demo_R_def demo_volatile_def
          GrShape_default_def SkRRect_default_def setRect_def)
qed

section \<open>Scenarios of the constructor\<close>

text \<open>
  X3. A path that is an oval becomes a rounded-rectangle shape, and \<open>asRRect\<close> gives the
  oval of its bounds.
\<close>

theorem oval_path_becomes_rrect:
  assumes "\<not> path_isEmpty p" and "path_isRRect p = None" and "path_isOval p = Some rect"
  shows "\<exists>s. GrShape_path p st = Inr s \<and> fType s = kRRect \<and> asRRect s = Some (setOval rect)"
  using assms
  by (simp add: GrShape_path_def attemptToReduceFromPath_def fPath_get_def
        AttemptToReduceFromPathImpl_def GrShape_default_def asRRect_def)

theorem oval_path_becomes_rrect_witness:
  "\<exists>s. GrShape_path (demo_path\<lparr>path_isOval := Some demo_rect\<rparr>) GrStyle_default = Inr s \<and>
       fType s = kRRect \<and>
       asRRect s = Some \<lparr>fRect = demo_rect, fRadii = [(2, 1), (2, 1), (2, 1), (2, 1)]\<rparr>"
proof -
  have "\<not> path_isEmpty (demo_path\<lparr>path_isOval := Some demo_rect\<rparr>)"
    "path_isRRect (demo_path\<lparr>path_isOval := Some demo_rect\<rparr>) = None"
    "path_isOval (demo_path\<lparr>path_isOval := Some demo_rect\<rparr>) = Some demo_rect"
    by (simp_all add: demo_path_def)
  from oval_path_becomes_rrect [OF this, of GrStyle_default]
  show ?thesis by (simp add: setOval_def demo_rect_def numeral_eq_Suc)
qed

text \<open>
  X4. An empty path becomes the empty shape; its unstyled key is the single word 1.
\<close>

theorem empty_path_becomes_empty:
  assumes "path_isEmpty p"
  shows "\<exists>s. GrShape_path p st = Inr s \<and> GrShape_isEmpty s \<and>
           unstyledKeySize env s = Inr 1 \<and> writeUnstyledKey env s = Inr [1]"
  using assms
  by (simp add: GrShape_path_def attemptToReduceFromPath_def fPath_get_def
        AttemptToReduceFromPathImpl_def GrShape_default_def GrShape_isEmpty_def
        unstyledKeySize_def writeUnstyledKey_def)

theorem empty_path_becomes_empty_witness:
  "path_isEmpty SkPath_new \<and>
   (\<exists>s. GrShape_path SkPath_new GrStyle_default = Inr s \<and> GrShape_isEmpty s \<and>
        unstyledKeySize demo_collab s = Inr 1 \<and> writeUnstyledKey demo_collab s = Inr [1])"
proof -
  have e: "path_isEmpty SkPath_new" by (simp add: SkPath_new_def)
  from empty_path_becomes_empty [OF e, of GrStyle_default demo_collab] e
  show ?thesis by simp
qed

end
